theory Spec2Isabelle
  imports Main "HOL-Library.Char_ord" "HOL-Library.List_Lexorder" "HOL-Library.Sublist"
begin

section \<open>Scenario sharing: the tables\<close>

text \<open>
  The migration adds four columns to \<^verbatim>\<open>react_scenarios\<close>, creates the audit table
  \<^verbatim>\<open>react_scenario_shares\<close> with its unique index and row-level policies, and defines
  the two functions \<^verbatim>\<open>react_search_users_by_email\<close> and \<^verbatim>\<open>react_share_scenario\<close>.

  A table is the list of its rows in the order a sequential scan meets them; an insert
  appends. A nullable column is an \<open>option\<close>, \<open>None\<close> being NULL. A UUID is a natural
  number, a timestamp likewise, a text is a \<open>string\<close> (a list of bytes), and the JSONB
  payload of a scenario is kept as its text. Of \<^verbatim>\<open>auth.users\<close> and of the original
  columns of \<^verbatim>\<open>react_scenarios\<close> only what the two functions read or write is kept.
\<close>

type_synonym uuid = nat
type_synonym jsonb = string
type_synonym timestamptz = nat

record users_row =
  u_id :: uuid
  u_email :: "string option"

record react_scenarios_row =
  s_id :: uuid
  s_user_id :: uuid
  s_name :: string
  s_description :: "string option"
  s_overrides :: jsonb
  s_base_currency :: string
  s_is_shared_copy :: bool
  s_shared_from_scenario_id :: "uuid option"
  s_shared_by_user_id :: "uuid option"
  s_shared_by_email :: "string option"

record react_scenario_shares_row =
  rs_id :: uuid
  rs_source_scenario_id :: uuid
  rs_shared_by_user_id :: uuid
  rs_recipient_user_id :: uuid
  rs_recipient_email :: string
  rs_created_at :: timestamptz

record db =
  auth_users :: "users_row list"
  react_scenarios :: "react_scenarios_row list"
  react_scenario_shares :: "react_scenario_shares_row list"

text \<open>
  What a call gets from its environment: \<^verbatim>\<open>auth.uid()\<close> (NULL for an anonymous caller),
  the two values \<^verbatim>\<open>gen_random_uuid()\<close> yields for the \<^verbatim>\<open>id\<close> defaults of the rows it
  inserts, and \<^verbatim>\<open>NOW()\<close>.
\<close>

record session =
  auth_uid :: "uuid option"
  gen_scenario_id :: uuid
  gen_share_id :: uuid
  now :: timestamptz

text \<open>
  The first five errors are the exceptions the functions raise, in the order of the
  source: 'Authentication required', 'Scenario not found or not owned by user',
  'Recipient not found', 'Cannot share scenario to yourself', 'Scenario already shared
  with this recipient'. The others are raised by the store: a primary key or unique
  index, a foreign key, a row-level policy.
\<close>

datatype error =
    AuthenticationRequired
  | NotFoundOrNotOwned
  | RecipientNotFound
  | SelfShareForbidden
  | DuplicateShare
  | UniqueViolation
  | ForeignKeyViolation
  | PermissionDenied

section \<open>The SQL functions the source calls\<close>

text \<open>
  \<^verbatim>\<open>lower\<close> maps the ASCII capitals to small letters and keeps every other byte. Under a
  UTF-8 locale PostgreSQL also folds letters outside ASCII, which are several bytes each
  here and are left as they are: what is proved below about letter case is about ASCII
  letters. \<^verbatim>\<open>trim\<close> with one argument strips the space character (U+0020) from both
  ends and nothing else: a tab or a line feed stays.
\<close>

definition lower_char :: "char \<Rightarrow> char" where
  "lower_char c =
     (case map_of (zip ''ABCDEFGHIJKLMNOPQRSTUVWXYZ'' ''abcdefghijklmnopqrstuvwxyz'') c of
        None \<Rightarrow> c
      | Some l \<Rightarrow> l)"

definition lower :: "string \<Rightarrow> string" where
  "lower s = map lower_char s"

definition trim :: "string \<Rightarrow> string" where
  "trim s = rev (dropWhile (\<lambda>c. c = CHR '' '') (rev (dropWhile (\<lambda>c. c = CHR '' '') s)))"

text \<open>
  Two characters that are the same, or the capital and the small form of one ASCII
  letter. It states, without \<^verbatim>\<open>lower\<close>, what it means for two texts of the same length
  to differ in letter case only.
\<close>

definition same_letter :: "char \<Rightarrow> char \<Rightarrow> bool" where
  "same_letter c c' =
     (c = c'
      \<or> (c, c') \<in> set (zip ''ABCDEFGHIJKLMNOPQRSTUVWXYZ'' ''abcdefghijklmnopqrstuvwxyz'')
      \<or> (c', c) \<in> set (zip ''ABCDEFGHIJKLMNOPQRSTUVWXYZ'' ''abcdefghijklmnopqrstuvwxyz''))"

definition coalesce :: "'a option \<Rightarrow> 'a \<Rightarrow> 'a" where
  "coalesce x d = (case x of None \<Rightarrow> d | Some v \<Rightarrow> v)"

text \<open>
  \<^verbatim>\<open>text LIKE pattern\<close>, the pattern first: a percent sign matches any run of
  characters, an underscore any one character, a backslash makes the next pattern
  character literal, any other character matches itself. A pattern that ends in a lone
  backslash is an error in PostgreSQL; the patterns built below end in a percent sign, so
  that the backslash, if it is the last but one character, always has a successor.
\<close>

fun sql_like :: "string \<Rightarrow> string \<Rightarrow> bool" where
  "sql_like [] t = (t = [])"
| "sql_like (c # p) [] = (c = CHR ''%'' \<and> sql_like p [])"
| "sql_like (c # p) (x # t) =
     (if c = CHR ''%'' then sql_like p (x # t) \<or> sql_like (c # p) t
      else if c = CHR ''_'' then sql_like p t
      else if c = CHR 0x5C then (case p of [] \<Rightarrow> False | e # q \<Rightarrow> e = x \<and> sql_like q t)
      else c = x \<and> sql_like p t)"

text \<open>\<^verbatim>\<open>LIMIT 1\<close> on a query without ORDER BY: the first row the scan produces.\<close>

definition limit_1 :: "'a list \<Rightarrow> 'a option" where
  "limit_1 rows = (case rows of [] \<Rightarrow> None | r # _ \<Rightarrow> Some r)"

section \<open>Constraints of the two tables\<close>

text \<open>
  An insert into \<^verbatim>\<open>react_scenarios\<close>: \<^verbatim>\<open>id\<close> is the key the foreign keys of the
  migration refer to, \<^verbatim>\<open>shared_from_scenario_id\<close> references \<^verbatim>\<open>react_scenarios(id)\<close>
  and \<^verbatim>\<open>shared_by_user_id\<close> references \<^verbatim>\<open>auth.users(id)\<close>.
\<close>

definition insert_react_scenarios :: "react_scenarios_row \<Rightarrow> db \<Rightarrow> error + db" where
  "insert_react_scenarios r d =
     (if s_id r \<in> set (map s_id (react_scenarios d)) then Inl UniqueViolation
      else if (case s_shared_from_scenario_id r of
                 None \<Rightarrow> False
               | Some i \<Rightarrow> i \<notin> set (map s_id (react_scenarios d @ [r])))
        then Inl ForeignKeyViolation
      else if (case s_shared_by_user_id r of
                 None \<Rightarrow> False
               | Some i \<Rightarrow> i \<notin> set (map u_id (auth_users d)))
        then Inl ForeignKeyViolation
      else Inr (d\<lparr>react_scenarios := react_scenarios d @ [r]\<rparr>))"

text \<open>
  The key of \<^verbatim>\<open>uniq_react_scenario_share_sender_source_recipient\<close>:
  \<^verbatim>\<open>(source_scenario_id, shared_by_user_id, recipient_user_id)\<close>.
\<close>

definition share_key :: "react_scenario_shares_row \<Rightarrow> uuid \<times> uuid \<times> uuid" where
  "share_key rs = (rs_source_scenario_id rs, rs_shared_by_user_id rs, rs_recipient_user_id rs)"

definition insert_react_scenario_shares :: "react_scenario_shares_row \<Rightarrow> db \<Rightarrow> error + db" where
  "insert_react_scenario_shares r d =
     (if rs_id r \<in> set (map rs_id (react_scenario_shares d)) then Inl UniqueViolation
      else if share_key r \<in> set (map share_key (react_scenario_shares d)) then Inl UniqueViolation
      else if rs_source_scenario_id r \<notin> set (map s_id (react_scenarios d)) then Inl ForeignKeyViolation
      else if rs_shared_by_user_id r \<notin> set (map u_id (auth_users d)) then Inl ForeignKeyViolation
      else if rs_recipient_user_id r \<notin> set (map u_id (auth_users d)) then Inl ForeignKeyViolation
      else Inr (d\<lparr>react_scenario_shares := react_scenario_shares d @ [r]\<rparr>))"

text \<open>The same constraints on a whole table, for a statement that rewrites rows.\<close>

definition check_react_scenario_shares :: "db \<Rightarrow> error option" where
  "check_react_scenario_shares d =
     (if \<not> distinct (map rs_id (react_scenario_shares d)) then Some UniqueViolation
      else if \<not> distinct (map share_key (react_scenario_shares d)) then Some UniqueViolation
      else if list_ex (\<lambda>r. rs_source_scenario_id r \<notin> set (map s_id (react_scenarios d)))
                (react_scenario_shares d) then Some ForeignKeyViolation
      else if list_ex (\<lambda>r. rs_shared_by_user_id r \<notin> set (map u_id (auth_users d)))
                (react_scenario_shares d) then Some ForeignKeyViolation
      else if list_ex (\<lambda>r. rs_recipient_user_id r \<notin> set (map u_id (auth_users d)))
                (react_scenario_shares d) then Some ForeignKeyViolation
      else None)"

section \<open>react_search_users_by_email\<close>

record found_user =
  f_user_id :: uuid
  f_email :: string

text \<open>
  \<^verbatim>\<open>ORDER BY u.email\<close> is a stable sort by the bytewise lexicographic order of the
  text (the order of \<open>char list\<close>); rows with a NULL email never reach it.
\<close>

definition react_search_users_by_email ::
    "session \<Rightarrow> string option \<Rightarrow> db \<Rightarrow> error + found_user list" where
  "react_search_users_by_email ctx query_text d =
     (case auth_uid ctx of
        None \<Rightarrow> Inl AuthenticationRequired
      | Some me \<Rightarrow>
          (let normalized_query = lower (trim (coalesce query_text ''''))
           in if length normalized_query < 2 then Inr []
              else Inr (take 10 (sort_key f_email
                     (List.map_filter
                        (\<lambda>u. case u_email u of
                               None \<Rightarrow> None
                             | Some e \<Rightarrow>
                                 if sql_like (normalized_query @ ''%'') (lower e) \<and> u_id u \<noteq> me
                                 then Some \<lparr>f_user_id = u_id u, f_email = e\<rparr>
                                 else None)
                        (auth_users d))))))"

section \<open>react_share_scenario\<close>

record share_result =
  r_shared_scenario_id :: uuid
  r_shared_scenario_name :: string
  r_recipient_user_id :: uuid
  r_recipient_email :: string

text \<open>
  \<^verbatim>\<open>SELECT s.* INTO source_record FROM react_scenarios s WHERE s.id = source_scenario_id
  AND s.user_id = sender_id LIMIT 1\<close>. A NULL argument compares equal to no id.
\<close>

definition select_source ::
    "uuid option \<Rightarrow> uuid \<Rightarrow> react_scenarios_row list \<Rightarrow> react_scenarios_row option" where
  "select_source source_scenario_id sender_id scenarios =
     limit_1 (filter (\<lambda>s. Some (s_id s) = source_scenario_id \<and> s_user_id s = sender_id)
                scenarios)"

text \<open>
  The WHERE clause of the recipient lookup,
  \<^verbatim>\<open>lower(u.email::TEXT) = lower(trim(recipient_email_input))\<close>: a NULL on either side
  makes the comparison NULL, and the row is not selected.
\<close>

definition recipient_matches :: "string option \<Rightarrow> users_row \<Rightarrow> bool" where
  "recipient_matches recipient_email_input u =
     (case recipient_email_input of
        None \<Rightarrow> False
      | Some i \<Rightarrow> (case u_email u of None \<Rightarrow> False | Some e \<Rightarrow> lower e = lower (trim i)))"

text \<open>
  \<^verbatim>\<open>SELECT u.id, u.email::TEXT INTO recipient_id, recipient_email FROM auth.users u
  WHERE ... LIMIT 1\<close>: the two columns of the first matching row.
\<close>

definition select_recipient :: "string option \<Rightarrow> users_row list \<Rightarrow> (uuid \<times> string) option" where
  "select_recipient recipient_email_input users =
     limit_1 (List.map_filter
       (\<lambda>u. if recipient_matches recipient_email_input u
            then map_option (\<lambda>e. (u_id u, e)) (u_email u)
            else None)
       users)"

text \<open>
  \<^verbatim>\<open>SELECT u.email::TEXT INTO sender_email FROM auth.users u WHERE u.id = sender_id
  LIMIT 1\<close>: NULL when there is no such row or its email is NULL.
\<close>

definition select_sender_email :: "uuid \<Rightarrow> users_row list \<Rightarrow> string option" where
  "select_sender_email sender_id users =
     (case limit_1 (filter (\<lambda>u. u_id u = sender_id) users) of
        None \<Rightarrow> None
      | Some u \<Rightarrow> u_email u)"

text \<open>The EXISTS subquery on \<^verbatim>\<open>react_scenario_shares\<close>.\<close>

definition share_exists :: "uuid \<Rightarrow> uuid \<Rightarrow> uuid \<Rightarrow> react_scenario_shares_row list \<Rightarrow> bool" where
  "share_exists source_id sender_id recipient_id shares =
     list_ex (\<lambda>rs. rs_source_scenario_id rs = source_id
                   \<and> rs_shared_by_user_id rs = sender_id
                   \<and> rs_recipient_user_id rs = recipient_id) shares"

text \<open>The VALUES of the two INSERT statements, with the defaults of the other columns.\<close>

definition copy_values ::
    "session \<Rightarrow> react_scenarios_row \<Rightarrow> uuid \<Rightarrow> string option \<Rightarrow> uuid \<Rightarrow> react_scenarios_row" where
  "copy_values ctx source_record sender_id sender_email recipient_id =
     \<lparr>s_id = gen_scenario_id ctx,
      s_user_id = recipient_id,
      s_name = s_name source_record,
      s_description = s_description source_record,
      s_overrides = s_overrides source_record,
      s_base_currency = s_base_currency source_record,
      s_is_shared_copy = True,
      s_shared_from_scenario_id = Some (s_id source_record),
      s_shared_by_user_id = Some sender_id,
      s_shared_by_email = sender_email\<rparr>"

definition share_values ::
    "session \<Rightarrow> react_scenarios_row \<Rightarrow> uuid \<Rightarrow> uuid \<Rightarrow> string \<Rightarrow> react_scenario_shares_row" where
  "share_values ctx source_record sender_id recipient_id recipient_email =
     \<lparr>rs_id = gen_share_id ctx,
      rs_source_scenario_id = s_id source_record,
      rs_shared_by_user_id = sender_id,
      rs_recipient_user_id = recipient_id,
      rs_recipient_email = recipient_email,
      rs_created_at = now ctx\<rparr>"

text \<open>
  The body, statement by statement. It returns what it raises or returns together with
  the tables as they are at that point.
\<close>

definition react_share_scenario_body ::
    "session \<Rightarrow> uuid option \<Rightarrow> string option \<Rightarrow> db \<Rightarrow> (error + share_result) \<times> db" where
  "react_share_scenario_body ctx source_scenario_id recipient_email_input d =
     (case auth_uid ctx of
        None \<Rightarrow> (Inl AuthenticationRequired, d)
      | Some sender_id \<Rightarrow>
     (case select_source source_scenario_id sender_id (react_scenarios d) of
        None \<Rightarrow> (Inl NotFoundOrNotOwned, d)
      | Some source_record \<Rightarrow>
     (case select_recipient recipient_email_input (auth_users d) of
        None \<Rightarrow> (Inl RecipientNotFound, d)
      | Some (recipient_id, recipient_email) \<Rightarrow>
     (if recipient_id = sender_id then (Inl SelfShareForbidden, d)
      else
     (let sender_email = select_sender_email sender_id (auth_users d) in
      if share_exists (s_id source_record) sender_id recipient_id (react_scenario_shares d)
      then (Inl DuplicateShare, d)
      else
     (case insert_react_scenarios
             (copy_values ctx source_record sender_id sender_email recipient_id) d of
        Inl e \<Rightarrow> (Inl e, d)
      | Inr d1 \<Rightarrow>
     (let inserted_id = gen_scenario_id ctx in
      case insert_react_scenario_shares
             (share_values ctx source_record sender_id recipient_id recipient_email) d1 of
        Inl e \<Rightarrow> (Inl e, d1)
      | Inr d2 \<Rightarrow>
          (Inr \<lparr>r_shared_scenario_id = inserted_id,
                r_shared_scenario_name = s_name source_record,
                r_recipient_user_id = recipient_id,
                r_recipient_email = recipient_email\<rparr>, d2))))))))"

text \<open>
  The call. A PL/pgSQL function runs inside the transaction of the statement that calls
  it: an exception that leaves the function aborts the statement and undoes every change
  the function has made, so that the caller is left with the tables as they were.
\<close>

definition react_share_scenario ::
    "session \<Rightarrow> uuid option \<Rightarrow> string option \<Rightarrow> db \<Rightarrow> (error + share_result) \<times> db" where
  "react_share_scenario ctx source_scenario_id recipient_email_input d =
     (case react_share_scenario_body ctx source_scenario_id recipient_email_input d of
        (Inl e, _) \<Rightarrow> (Inl e, d)
      | (Inr r, d') \<Rightarrow> (Inr r, d'))"

section \<open>Row-level policies of react_scenario_shares\<close>

text \<open>
  The four policies, each as the expression it declares, over \<^verbatim>\<open>auth.uid()\<close> and the
  row: "Users can view shares they sent or received", "No direct insert into scenario
  shares", "No direct update on scenario shares", "No direct delete on scenario shares".
\<close>

definition shares_select_using :: "uuid option \<Rightarrow> react_scenario_shares_row \<Rightarrow> bool" where
  "shares_select_using uid rs =
     (uid = Some (rs_shared_by_user_id rs) \<or> uid = Some (rs_recipient_user_id rs))"

definition shares_insert_with_check :: "uuid option \<Rightarrow> react_scenario_shares_row \<Rightarrow> bool" where
  "shares_insert_with_check uid rs = False"

definition shares_update_using :: "uuid option \<Rightarrow> react_scenario_shares_row \<Rightarrow> bool" where
  "shares_update_using uid rs = False"

definition shares_delete_using :: "uuid option \<Rightarrow> react_scenario_shares_row \<Rightarrow> bool" where
  "shares_delete_using uid rs = False"

text \<open>
  The statements a client sends to the table itself, under row-level security as
  PostgreSQL applies it. A new row that fails the WITH CHECK expression of the INSERT
  policy aborts the statement with an error. The USING expression of the UPDATE or
  DELETE policy selects the rows the statement sees: a row that fails it is skipped, and
  the statement completes on the rows that are left, reporting how many it touched. An
  UPDATE policy without WITH CHECK tests the rewritten row with its USING expression.
  The two functions above are SECURITY DEFINER and run as their owner, past the policies.
\<close>

definition client_insert_share ::
    "session \<Rightarrow> react_scenario_shares_row \<Rightarrow> db \<Rightarrow> (error + nat) \<times> db" where
  "client_insert_share ctx r d =
     (if \<not> shares_insert_with_check (auth_uid ctx) r then (Inl PermissionDenied, d)
      else (case insert_react_scenario_shares r d of
              Inl e \<Rightarrow> (Inl e, d)
            | Inr d' \<Rightarrow> (Inr 1, d')))"

definition client_update_shares ::
    "session \<Rightarrow> (react_scenario_shares_row \<Rightarrow> bool)
       \<Rightarrow> (react_scenario_shares_row \<Rightarrow> react_scenario_shares_row)
       \<Rightarrow> db \<Rightarrow> (error + nat) \<times> db" where
  "client_update_shares ctx wher setf d =
     (let seen = (\<lambda>r. shares_update_using (auth_uid ctx) r \<and> wher r);
          targets = filter seen (react_scenario_shares d)
      in if targets = [] then (Inr 0, d)
         else if list_ex (\<lambda>r. \<not> shares_update_using (auth_uid ctx) (setf r)) targets
           then (Inl PermissionDenied, d)
         else
           (let d' = d\<lparr>react_scenario_shares :=
                        map (\<lambda>r. if seen r then setf r else r) (react_scenario_shares d)\<rparr>
            in case check_react_scenario_shares d' of
                 Some e \<Rightarrow> (Inl e, d)
               | None \<Rightarrow> (Inr (length targets), d')))"

definition client_delete_shares ::
    "session \<Rightarrow> (react_scenario_shares_row \<Rightarrow> bool) \<Rightarrow> db \<Rightarrow> (error + nat) \<times> db" where
  "client_delete_shares ctx wher d =
     (let seen = (\<lambda>r. shares_delete_using (auth_uid ctx) r \<and> wher r)
      in (Inr (length (filter seen (react_scenario_shares d))),
          d\<lparr>react_scenario_shares := filter (\<lambda>r. \<not> seen r) (react_scenario_shares d)\<rparr>))"

section \<open>Requests\<close>

text \<open>
  What an authenticated or anonymous client can send: the two functions it may execute
  and the three kinds of statement on the audit table. \<open>serve\<close> gives the tables after
  one request, \<open>run\<close> after a sequence of them, each with its own session.
\<close>

datatype request =
    Search_users "string option"
  | Share_scenario "uuid option" "string option"
  | Insert_share react_scenario_shares_row
  | Update_shares "react_scenario_shares_row \<Rightarrow> bool"
      "react_scenario_shares_row \<Rightarrow> react_scenario_shares_row"
  | Delete_shares "react_scenario_shares_row \<Rightarrow> bool"

fun serve :: "session \<Rightarrow> request \<Rightarrow> db \<Rightarrow> db" where
  "serve ctx (Search_users q) d = d"
| "serve ctx (Share_scenario sid inp) d = snd (react_share_scenario ctx sid inp d)"
| "serve ctx (Insert_share r) d = snd (client_insert_share ctx r d)"
| "serve ctx (Update_shares wher setf) d = snd (client_update_shares ctx wher setf d)"
| "serve ctx (Delete_shares wher) d = snd (client_delete_shares ctx wher d)"

fun run :: "(session \<times> request) list \<Rightarrow> db \<Rightarrow> db" where
  "run [] d = d"
| "run ((ctx, rq) # rest) d = run rest (serve ctx rq d)"

text \<open>
  What the atomicity of a share keeps true of the tables: every shared copy has an audit
  row for its source, sender and owner, and every audit row has such a copy.
\<close>

definition copy_of :: "react_scenario_shares_row \<Rightarrow> react_scenarios_row \<Rightarrow> bool" where
  "copy_of rs c =
     (s_is_shared_copy c
      \<and> s_shared_from_scenario_id c = Some (rs_source_scenario_id rs)
      \<and> s_shared_by_user_id c = Some (rs_shared_by_user_id rs)
      \<and> s_user_id c = rs_recipient_user_id rs)"

definition copies_paired :: "db \<Rightarrow> bool" where
  "copies_paired d =
     ((\<forall>c \<in> set (react_scenarios d).
         s_is_shared_copy c \<longrightarrow> (\<exists>rs \<in> set (react_scenario_shares d). copy_of rs c))
      \<and> (\<forall>rs \<in> set (react_scenario_shares d).
         \<exists>c \<in> set (react_scenarios d). copy_of rs c))"

section \<open>Editing a scenario\<close>

record scenario_edit =
  e_name :: string
  e_description :: "string option"
  e_overrides :: jsonb
  e_base_currency :: string

text \<open>
  Modelled from the spec: the scenario-editing operation of the owner is not part of the
  sources. The spec has a scenario "mutated only by its current owner through normal
  scenario-editing operations"; here it rewrites name, description, override payload and
  base currency of the row with the given id, when the acting user owns that row.
\<close>

definition edit_scenario :: "uuid \<Rightarrow> uuid \<Rightarrow> scenario_edit \<Rightarrow> db \<Rightarrow> db" where
  "edit_scenario acting_user_id scenario_id e d =
     d\<lparr>react_scenarios :=
         map (\<lambda>s. if s_id s = scenario_id \<and> s_user_id s = acting_user_id
                  then s\<lparr>s_name := e_name e, s_description := e_description e,
                         s_overrides := e_overrides e,
                         s_base_currency := e_base_currency e\<rparr>
                  else s)
           (react_scenarios d)\<rparr>"

section \<open>Properties\<close>

subsection \<open>The statements of react_share_scenario\<close>

lemma limit_1_Nil [simp]: "limit_1 [] = None"
  by (simp add: limit_1_def)

lemma limit_1_Cons [simp]: "limit_1 (x # xs) = Some x"
  by (simp add: limit_1_def)

lemma limit_1_None_iff: "limit_1 xs = None \<longleftrightarrow> xs = []"
  by (cases xs) simp_all

lemma limit_1_Some_mem: "limit_1 xs = Some x \<Longrightarrow> x \<in> set xs"
  by (cases xs) auto

lemma limit_1_append: "limit_1 xs = Some x \<Longrightarrow> limit_1 (xs @ ys) = Some x"
  by (cases xs) auto

lemma insert_react_scenarios_Inr_iff:
  "insert_react_scenarios r d = Inr d1 \<longleftrightarrow>
     s_id r \<notin> set (map s_id (react_scenarios d))
     \<and> (case s_shared_from_scenario_id r of
           None \<Rightarrow> True
         | Some i \<Rightarrow> i \<in> set (map s_id (react_scenarios d @ [r])))
     \<and> (case s_shared_by_user_id r of
           None \<Rightarrow> True
         | Some i \<Rightarrow> i \<in> set (map u_id (auth_users d)))
     \<and> d1 = d\<lparr>react_scenarios := react_scenarios d @ [r]\<rparr>"
  by (auto simp: insert_react_scenarios_def split: option.splits)

lemma insert_react_scenario_shares_Inr_iff:
  "insert_react_scenario_shares r d = Inr d2 \<longleftrightarrow>
     rs_id r \<notin> set (map rs_id (react_scenario_shares d))
     \<and> share_key r \<notin> set (map share_key (react_scenario_shares d))
     \<and> rs_source_scenario_id r \<in> set (map s_id (react_scenarios d))
     \<and> rs_shared_by_user_id r \<in> set (map u_id (auth_users d))
     \<and> rs_recipient_user_id r \<in> set (map u_id (auth_users d))
     \<and> d2 = d\<lparr>react_scenario_shares := react_scenario_shares d @ [r]\<rparr>"
  by (auto simp: insert_react_scenario_shares_def)

lemma body_success:
  assumes "react_share_scenario_body ctx sid inp d = (Inr r, d')"
  shows "\<exists>sender_id source_record recipient_id recipient_mail.
           auth_uid ctx = Some sender_id
         \<and> select_source sid sender_id (react_scenarios d) = Some source_record
         \<and> select_recipient inp (auth_users d) = Some (recipient_id, recipient_mail)
         \<and> recipient_id \<noteq> sender_id
         \<and> \<not> share_exists (s_id source_record) sender_id recipient_id (react_scenario_shares d)
         \<and> gen_scenario_id ctx \<notin> set (map s_id (react_scenarios d))
         \<and> gen_share_id ctx \<notin> set (map rs_id (react_scenario_shares d))
         \<and> sender_id \<in> set (map u_id (auth_users d))
         \<and> r = \<lparr>r_shared_scenario_id = gen_scenario_id ctx,
                r_shared_scenario_name = s_name source_record,
                r_recipient_user_id = recipient_id,
                r_recipient_email = recipient_mail\<rparr>
         \<and> d' = d\<lparr>react_scenarios := react_scenarios d @
                   [copy_values ctx source_record sender_id
                      (select_sender_email sender_id (auth_users d)) recipient_id],
                 react_scenario_shares := react_scenario_shares d @
                   [share_values ctx source_record sender_id recipient_id recipient_mail]\<rparr>"
  using assms
  unfolding react_share_scenario_body_def Let_def
  by (auto simp: insert_react_scenarios_Inr_iff insert_react_scenario_shares_Inr_iff
        copy_values_def share_values_def
      split: option.splits prod.splits if_splits sum.splits)


lemma recipient_matches_email:
  "recipient_matches inp u \<Longrightarrow> \<exists>i e. inp = Some i \<and> u_email u = Some e \<and> lower e = lower (trim i)"
  by (auto simp: recipient_matches_def split: option.splits)

lemma select_recipient_Nil [simp]: "select_recipient inp [] = None"
  by (simp add: select_recipient_def List.map_filter_simps)

lemma select_recipient_Cons:
  "select_recipient inp (u # us) =
     (if recipient_matches inp u then map_option (\<lambda>e. (u_id u, e)) (u_email u)
      else select_recipient inp us)"
  by (auto simp: select_recipient_def List.map_filter_simps dest: recipient_matches_email
      split: option.splits)

lemma select_recipient_None_iff:
  "select_recipient inp us = None \<longleftrightarrow> filter (recipient_matches inp) us = []"
  by (induction us) (auto simp: select_recipient_Cons dest: recipient_matches_email)

lemma select_recipient_Some_iff:
  "select_recipient inp us = Some (i, e) \<longleftrightarrow>
     (\<exists>u rest. filter (recipient_matches inp) us = u # rest \<and> u_id u = i \<and> u_email u = Some e)"
  by (induction us) (auto simp: select_recipient_Cons dest: recipient_matches_email)

lemma select_recipient_Some_mem:
  "select_recipient inp us = Some (i, e) \<Longrightarrow>
     \<exists>u \<in> set us. u_id u = i \<and> u_email u = Some e \<and> recipient_matches inp u"
  by (induction us) (auto simp: select_recipient_Cons split: if_splits)

lemma select_source_Some:
  "select_source sid a xs = Some src \<Longrightarrow> src \<in> set xs \<and> Some (s_id src) = sid \<and> s_user_id src = a"
  unfolding select_source_def
  by (induction xs) (auto split: if_splits)

lemma select_source_None_iff:
  "select_source sid a xs = None \<longleftrightarrow> (\<forall>s \<in> set xs. Some (s_id s) = sid \<longrightarrow> s_user_id s \<noteq> a)"
  unfolding select_source_def
  by (induction xs) (auto split: if_splits)

lemma select_source_append:
  "select_source sid a xs = Some src \<Longrightarrow> select_source sid a (xs @ ys) = Some src"
  unfolding select_source_def by (simp add: limit_1_append)

lemma share_exists_iff:
  "share_exists s a b shares \<longleftrightarrow> (s, a, b) \<in> set (map share_key shares)"
  by (auto simp: share_exists_def share_key_def list_ex_iff)

lemma body_success_iff:
  "react_share_scenario_body ctx sid inp d = (Inr r, d') \<longleftrightarrow>
     (\<exists>sender_id source_record recipient_id recipient_mail.
           auth_uid ctx = Some sender_id
         \<and> select_source sid sender_id (react_scenarios d) = Some source_record
         \<and> select_recipient inp (auth_users d) = Some (recipient_id, recipient_mail)
         \<and> recipient_id \<noteq> sender_id
         \<and> \<not> share_exists (s_id source_record) sender_id recipient_id (react_scenario_shares d)
         \<and> gen_scenario_id ctx \<notin> set (map s_id (react_scenarios d))
         \<and> gen_share_id ctx \<notin> set (map rs_id (react_scenario_shares d))
         \<and> sender_id \<in> set (map u_id (auth_users d))
         \<and> r = \<lparr>r_shared_scenario_id = gen_scenario_id ctx,
                r_shared_scenario_name = s_name source_record,
                r_recipient_user_id = recipient_id,
                r_recipient_email = recipient_mail\<rparr>
         \<and> d' = d\<lparr>react_scenarios := react_scenarios d @
                   [copy_values ctx source_record sender_id
                      (select_sender_email sender_id (auth_users d)) recipient_id],
                 react_scenario_shares := react_scenario_shares d @
                   [share_values ctx source_record sender_id recipient_id recipient_mail]\<rparr>)"
  (is "?L \<longleftrightarrow> ?R")
proof
  assume ?L
  then show ?R by (rule body_success)
next
  assume ?R
  then obtain sender_id source_record recipient_id recipient_mail where h:
    "auth_uid ctx = Some sender_id"
    "select_source sid sender_id (react_scenarios d) = Some source_record"
    "select_recipient inp (auth_users d) = Some (recipient_id, recipient_mail)"
    "recipient_id \<noteq> sender_id"
    "\<not> share_exists (s_id source_record) sender_id recipient_id (react_scenario_shares d)"
    "gen_scenario_id ctx \<notin> set (map s_id (react_scenarios d))"
    "gen_share_id ctx \<notin> set (map rs_id (react_scenario_shares d))"
    "sender_id \<in> set (map u_id (auth_users d))"
    "r = \<lparr>r_shared_scenario_id = gen_scenario_id ctx,
                r_shared_scenario_name = s_name source_record,
                r_recipient_user_id = recipient_id,
                r_recipient_email = recipient_mail\<rparr>"
    "d' = d\<lparr>react_scenarios := react_scenarios d @
                   [copy_values ctx source_record sender_id
                      (select_sender_email sender_id (auth_users d)) recipient_id],
                 react_scenario_shares := react_scenario_shares d @
                   [share_values ctx source_record sender_id recipient_id recipient_mail]\<rparr>"
    by blast
  from h(2) have src: "source_record \<in> set (react_scenarios d)"
    by (simp add: select_source_Some)
  from h(3) obtain u where u: "u \<in> set (auth_users d)" "u_id u = recipient_id"
    using select_recipient_Some_mem by blast
  have ins1: "insert_react_scenarios
                (copy_values ctx source_record sender_id
                   (select_sender_email sender_id (auth_users d)) recipient_id) d
              = Inr (d\<lparr>react_scenarios := react_scenarios d @
                   [copy_values ctx source_record sender_id
                      (select_sender_email sender_id (auth_users d)) recipient_id]\<rparr>)"
    using h(6) h(8) src by (simp add: insert_react_scenarios_Inr_iff copy_values_def)
  have ins2: "insert_react_scenario_shares
                (share_values ctx source_record sender_id recipient_id recipient_mail)
                (d\<lparr>react_scenarios := react_scenarios d @
                   [copy_values ctx source_record sender_id
                      (select_sender_email sender_id (auth_users d)) recipient_id]\<rparr>)
              = Inr d'"
    using h(5) h(7) h(8) src u h(10)
    by (auto simp: insert_react_scenario_shares_Inr_iff share_values_def share_exists_iff
          share_key_def)
  show ?L
    unfolding react_share_scenario_body_def Let_def
    using h(1-5) h(9) ins1 ins2 by simp
qed

lemma share_success_iff:
  "react_share_scenario ctx sid inp d = (Inr r, d') \<longleftrightarrow>
     react_share_scenario_body ctx sid inp d = (Inr r, d')"
  by (auto simp: react_share_scenario_def split: prod.splits sum.splits)

lemma share_cases:
  "(\<exists>e. react_share_scenario ctx sid inp d = (Inl e, d))
   \<or> (\<exists>r d'. react_share_scenario ctx sid inp d = (Inr r, d'))"
  by (auto simp: react_share_scenario_def split: prod.splits sum.splits)


lemma select_sender_email_mem:
  "a \<in> set (map u_id us) \<Longrightarrow> \<exists>u \<in> set us. u_id u = a \<and> select_sender_email a us = u_email u"
  unfolding select_sender_email_def
  by (induction us) auto

lemmas share_defs =
  react_share_scenario_def react_share_scenario_body_def select_source_def
  select_recipient_def recipient_matches_def select_sender_email_def share_exists_def
  copy_values_def share_values_def insert_react_scenarios_def
  insert_react_scenario_shares_def share_key_def limit_1_def List.map_filter_simps
  lower_def lower_char_def trim_def coalesce_def

subsection \<open>The ownership check\<close>

text \<open>
  C4. For an authenticated caller, a scenario id that no row has and a scenario id whose
  rows all belong to other users give the same outcome: the error
  \<^verbatim>\<open>Scenario not found or not owned by user\<close> and unchanged tables, whatever the other
  arguments are.
\<close>

theorem share_not_owned_indistinguishable:
  assumes "auth_uid ctxA = Some a" and "auth_uid ctxB = Some a"
    and "sid \<notin> set (map s_id (react_scenarios dA))"
    and "sid \<in> set (map s_id (react_scenarios dB))"
    and "\<forall>s \<in> set (react_scenarios dB). s_id s = sid \<longrightarrow> s_user_id s \<noteq> a"
  shows "react_share_scenario ctxA (Some sid) inpA dA = (Inl NotFoundOrNotOwned, dA)
       \<and> react_share_scenario ctxB (Some sid) inpB dB = (Inl NotFoundOrNotOwned, dB)
       \<and> fst (react_share_scenario ctxA (Some sid) inpA dA)
           = fst (react_share_scenario ctxB (Some sid) inpB dB)"
proof -
  have "select_source (Some sid) a (react_scenarios dA) = None"
    using assms(3) by (auto simp: select_source_None_iff)
  then have 1: "react_share_scenario ctxA (Some sid) inpA dA = (Inl NotFoundOrNotOwned, dA)"
    using assms(1) by (simp add: react_share_scenario_def react_share_scenario_body_def)
  have "select_source (Some sid) a (react_scenarios dB) = None"
    using assms(5) by (auto simp: select_source_None_iff)
  then have 2: "react_share_scenario ctxB (Some sid) inpB dB = (Inl NotFoundOrNotOwned, dB)"
    using assms(2) by (simp add: react_share_scenario_def react_share_scenario_body_def)
  from 1 2 show ?thesis by simp
qed

subsection \<open>The fields of the copy\<close>

text \<open>
  C5. After a successful call the one new row of \<^verbatim>\<open>react_scenarios\<close> has the returned
  id, is owned by the recipient the input resolved to, carries name, description,
  override payload and base currency of the source row as it is in the tables the call
  started from, is flagged as a shared copy, points back to the source id and to the
  sender's id, and holds the email of the sender's row in \<^verbatim>\<open>auth.users\<close>.
\<close>

theorem share_copy_fields:
  assumes "react_share_scenario ctx sid inp d = (Inr r, d')"
  shows "\<exists>sender src su copy.
           auth_uid ctx = Some sender
         \<and> select_source sid sender (react_scenarios d) = Some src
         \<and> src \<in> set (react_scenarios d) \<and> Some (s_id src) = sid \<and> s_user_id src = sender
         \<and> select_recipient inp (auth_users d) = Some (r_recipient_user_id r, r_recipient_email r)
         \<and> su \<in> set (auth_users d) \<and> u_id su = sender
         \<and> react_scenarios d' = react_scenarios d @ [copy]
         \<and> s_id copy = r_shared_scenario_id r
         \<and> s_id copy \<notin> set (map s_id (react_scenarios d))
         \<and> s_user_id copy = r_recipient_user_id r
         \<and> s_name copy = s_name src
         \<and> s_description copy = s_description src
         \<and> s_overrides copy = s_overrides src
         \<and> s_base_currency copy = s_base_currency src
         \<and> s_is_shared_copy copy = True
         \<and> s_shared_from_scenario_id copy = Some (s_id src)
         \<and> s_shared_by_user_id copy = Some sender
         \<and> s_shared_by_email copy = u_email su
         \<and> s_shared_by_email copy = select_sender_email sender (auth_users d)"
proof -
  from assms have "react_share_scenario_body ctx sid inp d = (Inr r, d')"
    by (simp add: share_success_iff)
  then obtain a src b m where h:
    "auth_uid ctx = Some a"
    "select_source sid a (react_scenarios d) = Some src"
    "select_recipient inp (auth_users d) = Some (b, m)"
    "gen_scenario_id ctx \<notin> set (map s_id (react_scenarios d))"
    "a \<in> set (map u_id (auth_users d))"
    "r = \<lparr>r_shared_scenario_id = gen_scenario_id ctx,
          r_shared_scenario_name = s_name src,
          r_recipient_user_id = b,
          r_recipient_email = m\<rparr>"
    "d' = d\<lparr>react_scenarios := react_scenarios d @
              [copy_values ctx src a (select_sender_email a (auth_users d)) b],
            react_scenario_shares := react_scenario_shares d @
              [share_values ctx src a b m]\<rparr>"
    using body_success by blast
  from h(5) obtain su where su:
    "su \<in> set (auth_users d)" "u_id su = a" "select_sender_email a (auth_users d) = u_email su"
    using select_sender_email_mem by blast
  from h(2) have src: "src \<in> set (react_scenarios d)" "Some (s_id src) = sid" "s_user_id src = a"
    by (simp_all add: select_source_Some)
  show ?thesis
    using h su src
    by (intro exI [of _ a] exI [of _ src] exI [of _ su]
          exI [of _ "copy_values ctx src a (select_sender_email a (auth_users d)) b"])
       (simp add: copy_values_def)
qed

theorem share_not_owned_indistinguishable_witness:
  "react_share_scenario
     \<lparr>auth_uid = Some 1, gen_scenario_id = 11, gen_share_id = 100, now = 5\<rparr>
     (Some 10) (Some ''bob@x'')
     \<lparr>auth_users = [\<lparr>u_id = 1, u_email = Some ''a@x''\<rparr>,
        \<lparr>u_id = 2, u_email = Some ''Bob@X''\<rparr>],
      react_scenarios = [],
      react_scenario_shares = []\<rparr>
   = (Inl NotFoundOrNotOwned,
     \<lparr>auth_users = [\<lparr>u_id = 1, u_email = Some ''a@x''\<rparr>,
        \<lparr>u_id = 2, u_email = Some ''Bob@X''\<rparr>],
      react_scenarios = [],
      react_scenario_shares = []\<rparr>)
   \<and> react_share_scenario
     \<lparr>auth_uid = Some 1, gen_scenario_id = 11, gen_share_id = 100, now = 5\<rparr>
     (Some 10) (Some ''bob@x'')
     \<lparr>auth_users = [\<lparr>u_id = 1, u_email = Some ''a@x''\<rparr>,
        \<lparr>u_id = 2, u_email = Some ''Bob@X''\<rparr>],
      react_scenarios = [\<lparr>s_id = 10, s_user_id = 2, s_name = ''Base'', s_description = None,
         s_overrides = ''{}'', s_base_currency = ''USD'', s_is_shared_copy = False,
         s_shared_from_scenario_id = None, s_shared_by_user_id = None,
         s_shared_by_email = None\<rparr>],
      react_scenario_shares = []\<rparr>
   = (Inl NotFoundOrNotOwned,
     \<lparr>auth_users = [\<lparr>u_id = 1, u_email = Some ''a@x''\<rparr>,
        \<lparr>u_id = 2, u_email = Some ''Bob@X''\<rparr>],
      react_scenarios = [\<lparr>s_id = 10, s_user_id = 2, s_name = ''Base'', s_description = None,
         s_overrides = ''{}'', s_base_currency = ''USD'', s_is_shared_copy = False,
         s_shared_from_scenario_id = None, s_shared_by_user_id = None,
         s_shared_by_email = None\<rparr>],
      react_scenario_shares = []\<rparr>)"
  using share_not_owned_indistinguishable [where a = 1 and sid = 10
      and ctxA = "\<lparr>auth_uid = Some 1, gen_scenario_id = 11, gen_share_id = 100, now = 5\<rparr>"
      and ctxB = "\<lparr>auth_uid = Some 1, gen_scenario_id = 11, gen_share_id = 100, now = 5\<rparr>"
      and inpA = "Some ''bob@x''" and inpB = "Some ''bob@x''"
      and dA = "\<lparr>auth_users = [\<lparr>u_id = 1, u_email = Some ''a@x''\<rparr>,
        \<lparr>u_id = 2, u_email = Some ''Bob@X''\<rparr>],
      react_scenarios = [],
      react_scenario_shares = []\<rparr>"
      and dB = "\<lparr>auth_users = [\<lparr>u_id = 1, u_email = Some ''a@x''\<rparr>,
        \<lparr>u_id = 2, u_email = Some ''Bob@X''\<rparr>],
      react_scenarios = [\<lparr>s_id = 10, s_user_id = 2, s_name = ''Base'', s_description = None,
         s_overrides = ''{}'', s_base_currency = ''USD'', s_is_shared_copy = False,
         s_shared_from_scenario_id = None, s_shared_by_user_id = None,
         s_shared_by_email = None\<rparr>],
      react_scenario_shares = []\<rparr>"]
  by simp

theorem share_copy_fields_witness:
  "react_share_scenario
     \<lparr>auth_uid = Some 1, gen_scenario_id = 11, gen_share_id = 100, now = 5\<rparr>
     (Some 10) (Some ''bob@x'')
     \<lparr>auth_users = [\<lparr>u_id = 1, u_email = Some ''a@x''\<rparr>,
        \<lparr>u_id = 2, u_email = Some ''Bob@X''\<rparr>],
      react_scenarios = [\<lparr>s_id = 10, s_user_id = 1, s_name = ''Base'', s_description = None,
         s_overrides = ''{equity_us: {target_pe: 18.5}}'', s_base_currency = ''USD'', s_is_shared_copy = False,
         s_shared_from_scenario_id = None, s_shared_by_user_id = None,
         s_shared_by_email = None\<rparr>],
      react_scenario_shares = []\<rparr>
   = (Inr \<lparr>r_shared_scenario_id = 11, r_shared_scenario_name = ''Base'',
        r_recipient_user_id = 2, r_recipient_email = ''Bob@X''\<rparr>,
     \<lparr>auth_users = [\<lparr>u_id = 1, u_email = Some ''a@x''\<rparr>,
        \<lparr>u_id = 2, u_email = Some ''Bob@X''\<rparr>],
      react_scenarios = [\<lparr>s_id = 10, s_user_id = 1, s_name = ''Base'', s_description = None,
         s_overrides = ''{equity_us: {target_pe: 18.5}}'', s_base_currency = ''USD'', s_is_shared_copy = False,
         s_shared_from_scenario_id = None, s_shared_by_user_id = None,
         s_shared_by_email = None\<rparr>,
        \<lparr>s_id = 11, s_user_id = 2, s_name = ''Base'', s_description = None,
         s_overrides = ''{equity_us: {target_pe: 18.5}}'', s_base_currency = ''USD'', s_is_shared_copy = True,
         s_shared_from_scenario_id = Some 10, s_shared_by_user_id = Some 1,
         s_shared_by_email = Some ''a@x''\<rparr>],
      react_scenario_shares = [\<lparr>rs_id = 100, rs_source_scenario_id = 10, rs_shared_by_user_id = 1,
         rs_recipient_user_id = 2, rs_recipient_email = ''Bob@X'', rs_created_at = 5\<rparr>]\<rparr>)
   \<and> (\<exists>copy.
         react_scenarios
           \<lparr>auth_users = [\<lparr>u_id = 1, u_email = Some ''a@x''\<rparr>,
        \<lparr>u_id = 2, u_email = Some ''Bob@X''\<rparr>],
      react_scenarios = [\<lparr>s_id = 10, s_user_id = 1, s_name = ''Base'', s_description = None,
         s_overrides = ''{equity_us: {target_pe: 18.5}}'', s_base_currency = ''USD'', s_is_shared_copy = False,
         s_shared_from_scenario_id = None, s_shared_by_user_id = None,
         s_shared_by_email = None\<rparr>,
        \<lparr>s_id = 11, s_user_id = 2, s_name = ''Base'', s_description = None,
         s_overrides = ''{equity_us: {target_pe: 18.5}}'', s_base_currency = ''USD'', s_is_shared_copy = True,
         s_shared_from_scenario_id = Some 10, s_shared_by_user_id = Some 1,
         s_shared_by_email = Some ''a@x''\<rparr>],
      react_scenario_shares = [\<lparr>rs_id = 100, rs_source_scenario_id = 10, rs_shared_by_user_id = 1,
         rs_recipient_user_id = 2, rs_recipient_email = ''Bob@X'', rs_created_at = 5\<rparr>]\<rparr>
         = react_scenarios
           \<lparr>auth_users = [\<lparr>u_id = 1, u_email = Some ''a@x''\<rparr>,
        \<lparr>u_id = 2, u_email = Some ''Bob@X''\<rparr>],
      react_scenarios = [\<lparr>s_id = 10, s_user_id = 1, s_name = ''Base'', s_description = None,
         s_overrides = ''{equity_us: {target_pe: 18.5}}'', s_base_currency = ''USD'', s_is_shared_copy = False,
         s_shared_from_scenario_id = None, s_shared_by_user_id = None,
         s_shared_by_email = None\<rparr>],
      react_scenario_shares = []\<rparr> @ [copy]
       \<and> s_user_id copy = 2 \<and> s_name copy = ''Base''
       \<and> s_overrides copy = ''{equity_us: {target_pe: 18.5}}''
       \<and> s_is_shared_copy copy \<and> s_shared_from_scenario_id copy = Some 10
       \<and> s_shared_by_user_id copy = Some 1 \<and> s_shared_by_email copy = Some ''a@x'')"
proof -
  have run: "react_share_scenario
     \<lparr>auth_uid = Some 1, gen_scenario_id = 11, gen_share_id = 100, now = 5\<rparr>
     (Some 10) (Some ''bob@x'')
     \<lparr>auth_users = [\<lparr>u_id = 1, u_email = Some ''a@x''\<rparr>,
        \<lparr>u_id = 2, u_email = Some ''Bob@X''\<rparr>],
      react_scenarios = [\<lparr>s_id = 10, s_user_id = 1, s_name = ''Base'', s_description = None,
         s_overrides = ''{equity_us: {target_pe: 18.5}}'', s_base_currency = ''USD'', s_is_shared_copy = False,
         s_shared_from_scenario_id = None, s_shared_by_user_id = None,
         s_shared_by_email = None\<rparr>],
      react_scenario_shares = []\<rparr>
   = (Inr \<lparr>r_shared_scenario_id = 11, r_shared_scenario_name = ''Base'',
        r_recipient_user_id = 2, r_recipient_email = ''Bob@X''\<rparr>,
     \<lparr>auth_users = [\<lparr>u_id = 1, u_email = Some ''a@x''\<rparr>,
        \<lparr>u_id = 2, u_email = Some ''Bob@X''\<rparr>],
      react_scenarios = [\<lparr>s_id = 10, s_user_id = 1, s_name = ''Base'', s_description = None,
         s_overrides = ''{equity_us: {target_pe: 18.5}}'', s_base_currency = ''USD'', s_is_shared_copy = False,
         s_shared_from_scenario_id = None, s_shared_by_user_id = None,
         s_shared_by_email = None\<rparr>,
        \<lparr>s_id = 11, s_user_id = 2, s_name = ''Base'', s_description = None,
         s_overrides = ''{equity_us: {target_pe: 18.5}}'', s_base_currency = ''USD'', s_is_shared_copy = True,
         s_shared_from_scenario_id = Some 10, s_shared_by_user_id = Some 1,
         s_shared_by_email = Some ''a@x''\<rparr>],
      react_scenario_shares = [\<lparr>rs_id = 100, rs_source_scenario_id = 10, rs_shared_by_user_id = 1,
         rs_recipient_user_id = 2, rs_recipient_email = ''Bob@X'', rs_created_at = 5\<rparr>]\<rparr>)"
    by (simp add: share_defs)
  from share_copy_fields [OF run] obtain copy where
    "react_scenarios
       \<lparr>auth_users = [\<lparr>u_id = 1, u_email = Some ''a@x''\<rparr>,
        \<lparr>u_id = 2, u_email = Some ''Bob@X''\<rparr>],
      react_scenarios = [\<lparr>s_id = 10, s_user_id = 1, s_name = ''Base'', s_description = None,
         s_overrides = ''{equity_us: {target_pe: 18.5}}'', s_base_currency = ''USD'', s_is_shared_copy = False,
         s_shared_from_scenario_id = None, s_shared_by_user_id = None,
         s_shared_by_email = None\<rparr>,
        \<lparr>s_id = 11, s_user_id = 2, s_name = ''Base'', s_description = None,
         s_overrides = ''{equity_us: {target_pe: 18.5}}'', s_base_currency = ''USD'', s_is_shared_copy = True,
         s_shared_from_scenario_id = Some 10, s_shared_by_user_id = Some 1,
         s_shared_by_email = Some ''a@x''\<rparr>],
      react_scenario_shares = [\<lparr>rs_id = 100, rs_source_scenario_id = 10, rs_shared_by_user_id = 1,
         rs_recipient_user_id = 2, rs_recipient_email = ''Bob@X'', rs_created_at = 5\<rparr>]\<rparr>
     = react_scenarios
       \<lparr>auth_users = [\<lparr>u_id = 1, u_email = Some ''a@x''\<rparr>,
        \<lparr>u_id = 2, u_email = Some ''Bob@X''\<rparr>],
      react_scenarios = [\<lparr>s_id = 10, s_user_id = 1, s_name = ''Base'', s_description = None,
         s_overrides = ''{equity_us: {target_pe: 18.5}}'', s_base_currency = ''USD'', s_is_shared_copy = False,
         s_shared_from_scenario_id = None, s_shared_by_user_id = None,
         s_shared_by_email = None\<rparr>],
      react_scenario_shares = []\<rparr> @ [copy]"
    by blast
  then have "copy = \<lparr>s_id = 11, s_user_id = 2, s_name = ''Base'', s_description = None,
         s_overrides = ''{equity_us: {target_pe: 18.5}}'', s_base_currency = ''USD'', s_is_shared_copy = True,
         s_shared_from_scenario_id = Some 10, s_shared_by_user_id = Some 1,
         s_shared_by_email = Some ''a@x''\<rparr>"
    by simp
  with run show ?thesis
    by simp
qed

subsection \<open>The identifier of the recipient\<close>

lemma recipient_matches_norm:
  "lower (trim i2) = lower (trim i1) \<Longrightarrow>
     recipient_matches (Some i2) u = recipient_matches (Some i1) u"
  by (simp add: recipient_matches_def split: option.splits)

lemma select_recipient_norm:
  assumes "lower (trim i2) = lower (trim i1)"
  shows "select_recipient (Some i2) us = select_recipient (Some i1) us"
proof -
  have "recipient_matches (Some i2) = recipient_matches (Some i1)"
    by (rule ext) (rule recipient_matches_norm [OF assms])
  then show ?thesis
    by (simp add: select_recipient_def)
qed

lemma share_norm:
  assumes "lower (trim i2) = lower (trim i1)"
  shows "react_share_scenario ctx sid (Some i2) d = react_share_scenario ctx sid (Some i1) d"
  unfolding react_share_scenario_def react_share_scenario_body_def
    select_recipient_norm [OF assms] ..

subsection \<open>Direct statements on the audit table\<close>

lemma client_insert_share_denied:
  "client_insert_share ctx r d = (Inl PermissionDenied, d)"
  by (simp add: client_insert_share_def shares_insert_with_check_def)

lemma client_update_shares_noop:
  "client_update_shares ctx wher setf d = (Inr 0, d)"
  by (simp add: client_update_shares_def shares_update_using_def)

lemma client_delete_shares_noop:
  "client_delete_shares ctx wher d = (Inr 0, d)"
  by (simp add: client_delete_shares_def shares_delete_using_def)

lemma serve_cases:
  "serve ctx rq d = d
   \<or> (\<exists>sid inp r. rq = Share_scenario sid inp
         \<and> react_share_scenario ctx sid inp d = (Inr r, serve ctx rq d))"
proof (cases rq)
  case (Share_scenario sid inp)
  then show ?thesis
    using share_cases [of ctx sid inp d] by auto
qed (simp_all add: client_insert_share_denied client_update_shares_noop
       client_delete_shares_noop)

text \<open>
  C3, as the claim has it, fails: a DELETE sent by a client on a row of the audit table
  is not rejected with an error. The policy hides the row from the statement, which
  completes and reports that it deleted nothing.
\<close>

theorem client_delete_not_denied:
  "client_delete_shares
     \<lparr>auth_uid = Some 1, gen_scenario_id = 11, gen_share_id = 100, now = 5\<rparr>
     (\<lambda>r. rs_id r = 7)
     \<lparr>auth_users = [\<lparr>u_id = 1, u_email = Some ''a@x''\<rparr>,
        \<lparr>u_id = 2, u_email = Some ''Bob@X''\<rparr>],
      react_scenarios = [\<lparr>s_id = 10, s_user_id = 1, s_name = ''Base'', s_description = None,
         s_overrides = ''{equity_us: {target_pe: 18.5}}'', s_base_currency = ''USD'', s_is_shared_copy = False,
         s_shared_from_scenario_id = None, s_shared_by_user_id = None,
         s_shared_by_email = None\<rparr>],
      react_scenario_shares = [\<lparr>rs_id = 7, rs_source_scenario_id = 10, rs_shared_by_user_id = 1,
         rs_recipient_user_id = 2, rs_recipient_email = ''Bob@X'', rs_created_at = 3\<rparr>]\<rparr>
   = (Inr 0,
     \<lparr>auth_users = [\<lparr>u_id = 1, u_email = Some ''a@x''\<rparr>,
        \<lparr>u_id = 2, u_email = Some ''Bob@X''\<rparr>],
      react_scenarios = [\<lparr>s_id = 10, s_user_id = 1, s_name = ''Base'', s_description = None,
         s_overrides = ''{equity_us: {target_pe: 18.5}}'', s_base_currency = ''USD'', s_is_shared_copy = False,
         s_shared_from_scenario_id = None, s_shared_by_user_id = None,
         s_shared_by_email = None\<rparr>],
      react_scenario_shares = [\<lparr>rs_id = 7, rs_source_scenario_id = 10, rs_shared_by_user_id = 1,
         rs_recipient_user_id = 2, rs_recipient_email = ''Bob@X'', rs_created_at = 3\<rparr>]\<rparr>)
   \<and> fst (client_delete_shares
     \<lparr>auth_uid = Some 1, gen_scenario_id = 11, gen_share_id = 100, now = 5\<rparr>
     (\<lambda>r. rs_id r = 7)
     \<lparr>auth_users = [\<lparr>u_id = 1, u_email = Some ''a@x''\<rparr>,
        \<lparr>u_id = 2, u_email = Some ''Bob@X''\<rparr>],
      react_scenarios = [\<lparr>s_id = 10, s_user_id = 1, s_name = ''Base'', s_description = None,
         s_overrides = ''{equity_us: {target_pe: 18.5}}'', s_base_currency = ''USD'', s_is_shared_copy = False,
         s_shared_from_scenario_id = None, s_shared_by_user_id = None,
         s_shared_by_email = None\<rparr>],
      react_scenario_shares = [\<lparr>rs_id = 7, rs_source_scenario_id = 10, rs_shared_by_user_id = 1,
         rs_recipient_user_id = 2, rs_recipient_email = ''Bob@X'', rs_created_at = 3\<rparr>]\<rparr>)
     \<noteq> Inl PermissionDenied"
  by (simp add: client_delete_shares_def shares_delete_using_def)

text \<open>
  C3, amended. For every caller and every row: an INSERT sent by a client on the audit
  table is rejected with a permission error; an UPDATE or a DELETE, whatever its WHERE
  clause, completes on no row. In all three cases the tables are unchanged. Of the
  requests a client can send (the two functions and the three kinds of statement on the
  audit table), only a \<^verbatim>\<open>react_share_scenario\<close> call that returns a result changes the
  audit table.
\<close>

theorem direct_share_writes_blocked:
  "client_insert_share ctx r d = (Inl PermissionDenied, d)
   \<and> client_update_shares ctx wher setf d = (Inr 0, d)
   \<and> client_delete_shares ctx wher d = (Inr 0, d)
   \<and> (react_scenario_shares (serve ctx rq d) \<noteq> react_scenario_shares d \<longrightarrow>
        (\<exists>sid inp res. rq = Share_scenario sid inp
           \<and> fst (react_share_scenario ctx sid inp d) = Inr res))"
proof -
  have "react_scenario_shares (serve ctx rq d) \<noteq> react_scenario_shares d \<longrightarrow>
        (\<exists>sid inp res. rq = Share_scenario sid inp
           \<and> fst (react_share_scenario ctx sid inp d) = Inr res)"
  proof
    assume "react_scenario_shares (serve ctx rq d) \<noteq> react_scenario_shares d"
    then have "serve ctx rq d \<noteq> d"
      by auto
    with serve_cases [of ctx rq d] obtain sid inp res where
      "rq = Share_scenario sid inp"
      "react_share_scenario ctx sid inp d = (Inr res, serve ctx rq d)"
      by blast
    then have "rq = Share_scenario sid inp \<and> fst (react_share_scenario ctx sid inp d) = Inr res"
      by (metis fst_conv)
    then show "\<exists>sid inp res. rq = Share_scenario sid inp
           \<and> fst (react_share_scenario ctx sid inp d) = Inr res"
      by blast
  qed
  then show ?thesis
    by (simp add: client_insert_share_denied client_update_shares_noop
          client_delete_shares_noop)
qed

theorem direct_share_writes_blocked_witness:
  "react_scenario_shares (serve
     \<lparr>auth_uid = Some 1, gen_scenario_id = 11, gen_share_id = 100, now = 5\<rparr>
     (Share_scenario (Some 10) (Some ''bob@x''))
     \<lparr>auth_users = [\<lparr>u_id = 1, u_email = Some ''a@x''\<rparr>,
        \<lparr>u_id = 2, u_email = Some ''Bob@X''\<rparr>],
      react_scenarios = [\<lparr>s_id = 10, s_user_id = 1, s_name = ''Base'', s_description = None,
         s_overrides = ''{equity_us: {target_pe: 18.5}}'', s_base_currency = ''USD'', s_is_shared_copy = False,
         s_shared_from_scenario_id = None, s_shared_by_user_id = None,
         s_shared_by_email = None\<rparr>],
      react_scenario_shares = []\<rparr>)
   \<noteq> react_scenario_shares
     \<lparr>auth_users = [\<lparr>u_id = 1, u_email = Some ''a@x''\<rparr>,
        \<lparr>u_id = 2, u_email = Some ''Bob@X''\<rparr>],
      react_scenarios = [\<lparr>s_id = 10, s_user_id = 1, s_name = ''Base'', s_description = None,
         s_overrides = ''{equity_us: {target_pe: 18.5}}'', s_base_currency = ''USD'', s_is_shared_copy = False,
         s_shared_from_scenario_id = None, s_shared_by_user_id = None,
         s_shared_by_email = None\<rparr>],
      react_scenario_shares = []\<rparr>
   \<and> fst (react_share_scenario
     \<lparr>auth_uid = Some 1, gen_scenario_id = 11, gen_share_id = 100, now = 5\<rparr>
     (Some 10) (Some ''bob@x'')
     \<lparr>auth_users = [\<lparr>u_id = 1, u_email = Some ''a@x''\<rparr>,
        \<lparr>u_id = 2, u_email = Some ''Bob@X''\<rparr>],
      react_scenarios = [\<lparr>s_id = 10, s_user_id = 1, s_name = ''Base'', s_description = None,
         s_overrides = ''{equity_us: {target_pe: 18.5}}'', s_base_currency = ''USD'', s_is_shared_copy = False,
         s_shared_from_scenario_id = None, s_shared_by_user_id = None,
         s_shared_by_email = None\<rparr>],
      react_scenario_shares = []\<rparr>)
   = Inr \<lparr>r_shared_scenario_id = 11, r_shared_scenario_name = ''Base'',
        r_recipient_user_id = 2, r_recipient_email = ''Bob@X''\<rparr>
   \<and> client_insert_share
     \<lparr>auth_uid = Some 1, gen_scenario_id = 11, gen_share_id = 100, now = 5\<rparr>
     \<lparr>rs_id = 7, rs_source_scenario_id = 10, rs_shared_by_user_id = 1,
         rs_recipient_user_id = 2, rs_recipient_email = ''Bob@X'', rs_created_at = 3\<rparr>
     \<lparr>auth_users = [\<lparr>u_id = 1, u_email = Some ''a@x''\<rparr>,
        \<lparr>u_id = 2, u_email = Some ''Bob@X''\<rparr>],
      react_scenarios = [\<lparr>s_id = 10, s_user_id = 1, s_name = ''Base'', s_description = None,
         s_overrides = ''{equity_us: {target_pe: 18.5}}'', s_base_currency = ''USD'', s_is_shared_copy = False,
         s_shared_from_scenario_id = None, s_shared_by_user_id = None,
         s_shared_by_email = None\<rparr>],
      react_scenario_shares = []\<rparr>
   = (Inl PermissionDenied,
     \<lparr>auth_users = [\<lparr>u_id = 1, u_email = Some ''a@x''\<rparr>,
        \<lparr>u_id = 2, u_email = Some ''Bob@X''\<rparr>],
      react_scenarios = [\<lparr>s_id = 10, s_user_id = 1, s_name = ''Base'', s_description = None,
         s_overrides = ''{equity_us: {target_pe: 18.5}}'', s_base_currency = ''USD'', s_is_shared_copy = False,
         s_shared_from_scenario_id = None, s_shared_by_user_id = None,
         s_shared_by_email = None\<rparr>],
      react_scenario_shares = []\<rparr>)"
proof -
  have changed: "react_scenario_shares (serve
     \<lparr>auth_uid = Some 1, gen_scenario_id = 11, gen_share_id = 100, now = 5\<rparr>
     (Share_scenario (Some 10) (Some ''bob@x''))
     \<lparr>auth_users = [\<lparr>u_id = 1, u_email = Some ''a@x''\<rparr>,
        \<lparr>u_id = 2, u_email = Some ''Bob@X''\<rparr>],
      react_scenarios = [\<lparr>s_id = 10, s_user_id = 1, s_name = ''Base'', s_description = None,
         s_overrides = ''{equity_us: {target_pe: 18.5}}'', s_base_currency = ''USD'', s_is_shared_copy = False,
         s_shared_from_scenario_id = None, s_shared_by_user_id = None,
         s_shared_by_email = None\<rparr>],
      react_scenario_shares = []\<rparr>)
   \<noteq> react_scenario_shares
     \<lparr>auth_users = [\<lparr>u_id = 1, u_email = Some ''a@x''\<rparr>,
        \<lparr>u_id = 2, u_email = Some ''Bob@X''\<rparr>],
      react_scenarios = [\<lparr>s_id = 10, s_user_id = 1, s_name = ''Base'', s_description = None,
         s_overrides = ''{equity_us: {target_pe: 18.5}}'', s_base_currency = ''USD'', s_is_shared_copy = False,
         s_shared_from_scenario_id = None, s_shared_by_user_id = None,
         s_shared_by_email = None\<rparr>],
      react_scenario_shares = []\<rparr>"
    by (simp add: share_defs)
  have res: "fst (react_share_scenario
     \<lparr>auth_uid = Some 1, gen_scenario_id = 11, gen_share_id = 100, now = 5\<rparr>
     (Some 10) (Some ''bob@x'')
     \<lparr>auth_users = [\<lparr>u_id = 1, u_email = Some ''a@x''\<rparr>,
        \<lparr>u_id = 2, u_email = Some ''Bob@X''\<rparr>],
      react_scenarios = [\<lparr>s_id = 10, s_user_id = 1, s_name = ''Base'', s_description = None,
         s_overrides = ''{equity_us: {target_pe: 18.5}}'', s_base_currency = ''USD'', s_is_shared_copy = False,
         s_shared_from_scenario_id = None, s_shared_by_user_id = None,
         s_shared_by_email = None\<rparr>],
      react_scenario_shares = []\<rparr>)
   = Inr \<lparr>r_shared_scenario_id = 11, r_shared_scenario_name = ''Base'',
        r_recipient_user_id = 2, r_recipient_email = ''Bob@X''\<rparr>"
    by (simp add: share_defs)
  note blocked = direct_share_writes_blocked [where
      ctx = "\<lparr>auth_uid = Some 1, gen_scenario_id = 11, gen_share_id = 100, now = 5\<rparr>"
      and rq = "Share_scenario (Some 10) (Some ''bob@x'')"
      and r = "\<lparr>rs_id = 7, rs_source_scenario_id = 10, rs_shared_by_user_id = 1,
         rs_recipient_user_id = 2, rs_recipient_email = ''Bob@X'', rs_created_at = 3\<rparr>"
      and d = "\<lparr>auth_users = [\<lparr>u_id = 1, u_email = Some ''a@x''\<rparr>,
        \<lparr>u_id = 2, u_email = Some ''Bob@X''\<rparr>],
      react_scenarios = [\<lparr>s_id = 10, s_user_id = 1, s_name = ''Base'', s_description = None,
         s_overrides = ''{equity_us: {target_pe: 18.5}}'', s_base_currency = ''USD'', s_is_shared_copy = False,
         s_shared_from_scenario_id = None, s_shared_by_user_id = None,
         s_shared_by_email = None\<rparr>],
      react_scenario_shares = []\<rparr>"]
  from changed res blocked [THEN conjunct1] show ?thesis
    by (intro conjI)
qed

subsection \<open>One audit row for each source, sender and recipient\<close>

lemma share_exists_filter:
  "\<not> share_exists s a b shares \<Longrightarrow> filter (\<lambda>rs. share_key rs = (s, a, b)) shares = []"
  by (auto simp: share_exists_def list_ex_iff share_key_def filter_empty_conv)

lemma serve_distinct_share_key:
  assumes "distinct (map share_key (react_scenario_shares d))"
  shows "distinct (map share_key (react_scenario_shares (serve ctx rq d)))"
proof -
  consider "serve ctx rq d = d"
    | sid inp r where "react_share_scenario ctx sid inp d = (Inr r, serve ctx rq d)"
    using serve_cases [of ctx rq d] by blast
  then show ?thesis
  proof cases
    case 1
    with assms show ?thesis by simp
  next
    case 2
    then have "react_share_scenario_body ctx sid inp d = (Inr r, serve ctx rq d)"
      by (simp add: share_success_iff)
    then obtain a src b m where h:
      "\<not> share_exists (s_id src) a b (react_scenario_shares d)"
      "serve ctx rq d = d\<lparr>react_scenarios := react_scenarios d @
              [copy_values ctx src a (select_sender_email a (auth_users d)) b],
            react_scenario_shares := react_scenario_shares d @
              [share_values ctx src a b m]\<rparr>"
      using body_success by blast
    from h(1) have "share_key (share_values ctx src a b m)
                      \<notin> set (map share_key (react_scenario_shares d))"
      by (simp add: share_exists_iff share_values_def share_key_def)
    with assms h(2) show ?thesis by simp
  qed
qed

lemma run_distinct_share_key:
  "distinct (map share_key (react_scenario_shares d)) \<Longrightarrow>
     distinct (map share_key (react_scenario_shares (run rqs d)))"
  by (induction rqs arbitrary: d) (auto simp: serve_distinct_share_key)

text \<open>
  C1. Let user \<open>a\<close> own scenario \<open>s\<close>, let the input resolve to a recipient \<open>b\<close> other
  than \<open>a\<close>, and let no audit row for \<open>(s, a, b)\<close> exist. With the sender registered and
  the two generated ids unused, the call returns a result and adds one scenario and one
  audit row, the only one for \<open>(s, a, b)\<close>. A second call by \<open>a\<close> for \<open>s\<close> with an input
  that resolves to \<open>b\<close>, under any session, raises
  \<^verbatim>\<open>Scenario already shared with this recipient\<close> and leaves the tables as the first call
  left them. If no two audit rows agreed on source, sender and recipient before, none do
  after any further sequence of requests.
\<close>

theorem share_once:
  assumes "auth_uid ctx = Some a"
    and "src \<in> set (react_scenarios d)" and "s_id src = s" and "s_user_id src = a"
    and "select_recipient inp (auth_users d) = Some (b, m)" and "b \<noteq> a"
    and "(s, a, b) \<notin> set (map share_key (react_scenario_shares d))"
    and "a \<in> set (map u_id (auth_users d))"
    and "gen_scenario_id ctx \<notin> set (map s_id (react_scenarios d))"
    and "gen_share_id ctx \<notin> set (map rs_id (react_scenario_shares d))"
    and "auth_uid ctx' = Some a"
    and "select_recipient inp' (auth_users d) = Some (b, m')"
  shows "\<exists>r d'.
           react_share_scenario ctx (Some s) inp d = (Inr r, d')
         \<and> length (react_scenarios d') = Suc (length (react_scenarios d))
         \<and> length (react_scenario_shares d') = Suc (length (react_scenario_shares d))
         \<and> length (filter (\<lambda>rs. share_key rs = (s, a, b)) (react_scenario_shares d')) = 1
         \<and> react_share_scenario ctx' (Some s) inp' d' = (Inl DuplicateShare, d')
         \<and> (distinct (map share_key (react_scenario_shares d)) \<longrightarrow>
              (\<forall>rqs. distinct (map share_key (react_scenario_shares (run rqs d')))))"
proof -
  have "select_source (Some s) a (react_scenarios d) \<noteq> None"
    using assms(2-4) by (auto simp: select_source_None_iff)
  then obtain sr where sr: "select_source (Some s) a (react_scenarios d) = Some sr"
    by blast
  then have sr_id: "s_id sr = s"
    by (auto dest: select_source_Some)
  define copy where "copy = copy_values ctx sr a (select_sender_email a (auth_users d)) b"
  define audit where "audit = share_values ctx sr a b m"
  define r where "r = \<lparr>r_shared_scenario_id = gen_scenario_id ctx,
     r_shared_scenario_name = s_name sr, r_recipient_user_id = b, r_recipient_email = m\<rparr>"
  define d' where "d' = d\<lparr>react_scenarios := react_scenarios d @ [copy],
     react_scenario_shares := react_scenario_shares d @ [audit]\<rparr>"
  have nex: "\<not> share_exists (s_id sr) a b (react_scenario_shares d)"
    using assms(7) sr_id by (simp add: share_exists_iff)
  have "react_share_scenario_body ctx (Some s) inp d = (Inr r, d')"
    unfolding body_success_iff
    using assms(1,5,6,8,9,10) sr nex
    by (intro exI [of _ a] exI [of _ sr] exI [of _ b] exI [of _ m])
       (simp add: r_def d'_def copy_def audit_def)
  then have first: "react_share_scenario ctx (Some s) inp d = (Inr r, d')"
    by (simp add: share_success_iff)
  have key: "share_key audit = (s, a, b)"
    by (simp add: audit_def share_values_def share_key_def sr_id)
  have one: "length (filter (\<lambda>rs. share_key rs = (s, a, b)) (react_scenario_shares d')) = 1"
    using share_exists_filter [OF nex] key by (simp add: d'_def sr_id)
  have "select_source (Some s) a (react_scenarios d') = Some sr"
    using sr by (simp add: d'_def select_source_append)
  moreover have "select_recipient inp' (auth_users d') = Some (b, m')"
    using assms(12) by (simp add: d'_def)
  moreover have "share_exists (s_id sr) a b (react_scenario_shares d')"
    using key by (simp add: share_exists_iff d'_def sr_id)
  ultimately have second:
    "react_share_scenario ctx' (Some s) inp' d' = (Inl DuplicateShare, d')"
    using assms(6,11)
    by (simp add: react_share_scenario_def react_share_scenario_body_def)
  have inv: "distinct (map share_key (react_scenario_shares d)) \<longrightarrow>
              (\<forall>rqs. distinct (map share_key (react_scenario_shares (run rqs d'))))"
  proof (intro impI allI)
    fix rqs
    assume "distinct (map share_key (react_scenario_shares d))"
    then have "distinct (map share_key (react_scenario_shares d'))"
      using assms(7) key by (simp add: d'_def)
    then show "distinct (map share_key (react_scenario_shares (run rqs d')))"
      by (rule run_distinct_share_key)
  qed
  from first one second inv show ?thesis
    by (intro exI [of _ r] exI [of _ d']) (simp add: d'_def)
qed

theorem share_once_witness:
  "react_share_scenario
     \<lparr>auth_uid = Some 1, gen_scenario_id = 11, gen_share_id = 100, now = 5\<rparr>
     (Some 10) (Some ''bob@x'')
     \<lparr>auth_users = [\<lparr>u_id = 1, u_email = Some ''a@x''\<rparr>,
        \<lparr>u_id = 2, u_email = Some ''Bob@X''\<rparr>],
      react_scenarios = [\<lparr>s_id = 10, s_user_id = 1, s_name = ''Base'', s_description = None,
         s_overrides = ''{equity_us: {target_pe: 18.5}}'', s_base_currency = ''USD'', s_is_shared_copy = False,
         s_shared_from_scenario_id = None, s_shared_by_user_id = None,
         s_shared_by_email = None\<rparr>],
      react_scenario_shares = []\<rparr>
   = (Inr \<lparr>r_shared_scenario_id = 11, r_shared_scenario_name = ''Base'',
        r_recipient_user_id = 2, r_recipient_email = ''Bob@X''\<rparr>,
     \<lparr>auth_users = [\<lparr>u_id = 1, u_email = Some ''a@x''\<rparr>,
        \<lparr>u_id = 2, u_email = Some ''Bob@X''\<rparr>],
      react_scenarios = [\<lparr>s_id = 10, s_user_id = 1, s_name = ''Base'', s_description = None,
         s_overrides = ''{equity_us: {target_pe: 18.5}}'', s_base_currency = ''USD'', s_is_shared_copy = False,
         s_shared_from_scenario_id = None, s_shared_by_user_id = None,
         s_shared_by_email = None\<rparr>,
        \<lparr>s_id = 11, s_user_id = 2, s_name = ''Base'', s_description = None,
         s_overrides = ''{equity_us: {target_pe: 18.5}}'', s_base_currency = ''USD'', s_is_shared_copy = True,
         s_shared_from_scenario_id = Some 10, s_shared_by_user_id = Some 1,
         s_shared_by_email = Some ''a@x''\<rparr>],
      react_scenario_shares = [\<lparr>rs_id = 100, rs_source_scenario_id = 10, rs_shared_by_user_id = 1,
         rs_recipient_user_id = 2, rs_recipient_email = ''Bob@X'', rs_created_at = 5\<rparr>]\<rparr>)
   \<and> react_share_scenario
     \<lparr>auth_uid = Some 1, gen_scenario_id = 12, gen_share_id = 101, now = 6\<rparr>
     (Some 10) (Some '' BOB@X'')
     \<lparr>auth_users = [\<lparr>u_id = 1, u_email = Some ''a@x''\<rparr>,
        \<lparr>u_id = 2, u_email = Some ''Bob@X''\<rparr>],
      react_scenarios = [\<lparr>s_id = 10, s_user_id = 1, s_name = ''Base'', s_description = None,
         s_overrides = ''{equity_us: {target_pe: 18.5}}'', s_base_currency = ''USD'', s_is_shared_copy = False,
         s_shared_from_scenario_id = None, s_shared_by_user_id = None,
         s_shared_by_email = None\<rparr>,
        \<lparr>s_id = 11, s_user_id = 2, s_name = ''Base'', s_description = None,
         s_overrides = ''{equity_us: {target_pe: 18.5}}'', s_base_currency = ''USD'', s_is_shared_copy = True,
         s_shared_from_scenario_id = Some 10, s_shared_by_user_id = Some 1,
         s_shared_by_email = Some ''a@x''\<rparr>],
      react_scenario_shares = [\<lparr>rs_id = 100, rs_source_scenario_id = 10, rs_shared_by_user_id = 1,
         rs_recipient_user_id = 2, rs_recipient_email = ''Bob@X'', rs_created_at = 5\<rparr>]\<rparr>
   = (Inl DuplicateShare,
     \<lparr>auth_users = [\<lparr>u_id = 1, u_email = Some ''a@x''\<rparr>,
        \<lparr>u_id = 2, u_email = Some ''Bob@X''\<rparr>],
      react_scenarios = [\<lparr>s_id = 10, s_user_id = 1, s_name = ''Base'', s_description = None,
         s_overrides = ''{equity_us: {target_pe: 18.5}}'', s_base_currency = ''USD'', s_is_shared_copy = False,
         s_shared_from_scenario_id = None, s_shared_by_user_id = None,
         s_shared_by_email = None\<rparr>,
        \<lparr>s_id = 11, s_user_id = 2, s_name = ''Base'', s_description = None,
         s_overrides = ''{equity_us: {target_pe: 18.5}}'', s_base_currency = ''USD'', s_is_shared_copy = True,
         s_shared_from_scenario_id = Some 10, s_shared_by_user_id = Some 1,
         s_shared_by_email = Some ''a@x''\<rparr>],
      react_scenario_shares = [\<lparr>rs_id = 100, rs_source_scenario_id = 10, rs_shared_by_user_id = 1,
         rs_recipient_user_id = 2, rs_recipient_email = ''Bob@X'', rs_created_at = 5\<rparr>]\<rparr>)"
proof -
  have first: "react_share_scenario
     \<lparr>auth_uid = Some 1, gen_scenario_id = 11, gen_share_id = 100, now = 5\<rparr>
     (Some 10) (Some ''bob@x'')
     \<lparr>auth_users = [\<lparr>u_id = 1, u_email = Some ''a@x''\<rparr>,
        \<lparr>u_id = 2, u_email = Some ''Bob@X''\<rparr>],
      react_scenarios = [\<lparr>s_id = 10, s_user_id = 1, s_name = ''Base'', s_description = None,
         s_overrides = ''{equity_us: {target_pe: 18.5}}'', s_base_currency = ''USD'', s_is_shared_copy = False,
         s_shared_from_scenario_id = None, s_shared_by_user_id = None,
         s_shared_by_email = None\<rparr>],
      react_scenario_shares = []\<rparr>
   = (Inr \<lparr>r_shared_scenario_id = 11, r_shared_scenario_name = ''Base'',
        r_recipient_user_id = 2, r_recipient_email = ''Bob@X''\<rparr>,
     \<lparr>auth_users = [\<lparr>u_id = 1, u_email = Some ''a@x''\<rparr>,
        \<lparr>u_id = 2, u_email = Some ''Bob@X''\<rparr>],
      react_scenarios = [\<lparr>s_id = 10, s_user_id = 1, s_name = ''Base'', s_description = None,
         s_overrides = ''{equity_us: {target_pe: 18.5}}'', s_base_currency = ''USD'', s_is_shared_copy = False,
         s_shared_from_scenario_id = None, s_shared_by_user_id = None,
         s_shared_by_email = None\<rparr>,
        \<lparr>s_id = 11, s_user_id = 2, s_name = ''Base'', s_description = None,
         s_overrides = ''{equity_us: {target_pe: 18.5}}'', s_base_currency = ''USD'', s_is_shared_copy = True,
         s_shared_from_scenario_id = Some 10, s_shared_by_user_id = Some 1,
         s_shared_by_email = Some ''a@x''\<rparr>],
      react_scenario_shares = [\<lparr>rs_id = 100, rs_source_scenario_id = 10, rs_shared_by_user_id = 1,
         rs_recipient_user_id = 2, rs_recipient_email = ''Bob@X'', rs_created_at = 5\<rparr>]\<rparr>)"
    by (simp add: share_defs)
  have "\<exists>r d'.
      react_share_scenario
        \<lparr>auth_uid = Some 1, gen_scenario_id = 11, gen_share_id = 100, now = 5\<rparr>
        (Some 10) (Some ''bob@x'')
        \<lparr>auth_users = [\<lparr>u_id = 1, u_email = Some ''a@x''\<rparr>,
        \<lparr>u_id = 2, u_email = Some ''Bob@X''\<rparr>],
      react_scenarios = [\<lparr>s_id = 10, s_user_id = 1, s_name = ''Base'', s_description = None,
         s_overrides = ''{equity_us: {target_pe: 18.5}}'', s_base_currency = ''USD'', s_is_shared_copy = False,
         s_shared_from_scenario_id = None, s_shared_by_user_id = None,
         s_shared_by_email = None\<rparr>],
      react_scenario_shares = []\<rparr>
      = (Inr r, d')
    \<and> react_share_scenario
        \<lparr>auth_uid = Some 1, gen_scenario_id = 12, gen_share_id = 101, now = 6\<rparr>
        (Some 10) (Some '' BOB@X'') d'
      = (Inl DuplicateShare, d')"
    using share_once [where a = 1 and s = 10 and b = 2 and m = "''Bob@X''" and m' = "''Bob@X''"
      and src = "\<lparr>s_id = 10, s_user_id = 1, s_name = ''Base'', s_description = None,
         s_overrides = ''{equity_us: {target_pe: 18.5}}'', s_base_currency = ''USD'', s_is_shared_copy = False,
         s_shared_from_scenario_id = None, s_shared_by_user_id = None,
         s_shared_by_email = None\<rparr>"
      and ctx = "\<lparr>auth_uid = Some 1, gen_scenario_id = 11, gen_share_id = 100, now = 5\<rparr>"
      and ctx' = "\<lparr>auth_uid = Some 1, gen_scenario_id = 12, gen_share_id = 101, now = 6\<rparr>"
      and inp = "Some ''bob@x''" and inp' = "Some '' BOB@X''"
      and d = "\<lparr>auth_users = [\<lparr>u_id = 1, u_email = Some ''a@x''\<rparr>,
        \<lparr>u_id = 2, u_email = Some ''Bob@X''\<rparr>],
      react_scenarios = [\<lparr>s_id = 10, s_user_id = 1, s_name = ''Base'', s_description = None,
         s_overrides = ''{equity_us: {target_pe: 18.5}}'', s_base_currency = ''USD'', s_is_shared_copy = False,
         s_shared_from_scenario_id = None, s_shared_by_user_id = None,
         s_shared_by_email = None\<rparr>],
      react_scenario_shares = []\<rparr>"]
    by (simp add: share_defs)
  with first show ?thesis
    by simp
qed

subsection \<open>Resolving the recipient\<close>

text \<open>
  C7, as the claim has it, fails: with two registered identities whose emails agree with
  the input after \<^verbatim>\<open>lower\<close>, the call does not stop. \<^verbatim>\<open>LIMIT 1\<close> takes the first of
  them and the share is made.
\<close>

theorem share_ambiguous_recipient_proceeds:
  "length (filter (recipient_matches (Some ''b@x''))
     [\<lparr>u_id = 1, u_email = Some ''a@x''\<rparr>,
        \<lparr>u_id = 2, u_email = Some ''b@x''\<rparr>,
        \<lparr>u_id = 3, u_email = Some ''B@x''\<rparr>]) = 2
   \<and> react_share_scenario
     \<lparr>auth_uid = Some 1, gen_scenario_id = 11, gen_share_id = 100, now = 5\<rparr>
     (Some 10) (Some ''b@x'')
     \<lparr>auth_users = [\<lparr>u_id = 1, u_email = Some ''a@x''\<rparr>,
        \<lparr>u_id = 2, u_email = Some ''b@x''\<rparr>,
        \<lparr>u_id = 3, u_email = Some ''B@x''\<rparr>],
      react_scenarios = [\<lparr>s_id = 10, s_user_id = 1, s_name = ''Base'', s_description = None,
         s_overrides = ''{equity_us: {target_pe: 18.5}}'', s_base_currency = ''USD'', s_is_shared_copy = False,
         s_shared_from_scenario_id = None, s_shared_by_user_id = None,
         s_shared_by_email = None\<rparr>],
      react_scenario_shares = []\<rparr>
   = (Inr \<lparr>r_shared_scenario_id = 11, r_shared_scenario_name = ''Base'',
        r_recipient_user_id = 2, r_recipient_email = ''b@x''\<rparr>,
     \<lparr>auth_users = [\<lparr>u_id = 1, u_email = Some ''a@x''\<rparr>,
        \<lparr>u_id = 2, u_email = Some ''b@x''\<rparr>,
        \<lparr>u_id = 3, u_email = Some ''B@x''\<rparr>],
      react_scenarios = [\<lparr>s_id = 10, s_user_id = 1, s_name = ''Base'', s_description = None,
         s_overrides = ''{equity_us: {target_pe: 18.5}}'', s_base_currency = ''USD'', s_is_shared_copy = False,
         s_shared_from_scenario_id = None, s_shared_by_user_id = None,
         s_shared_by_email = None\<rparr>,
        \<lparr>s_id = 11, s_user_id = 2, s_name = ''Base'', s_description = None,
         s_overrides = ''{equity_us: {target_pe: 18.5}}'', s_base_currency = ''USD'', s_is_shared_copy = True,
         s_shared_from_scenario_id = Some 10, s_shared_by_user_id = Some 1,
         s_shared_by_email = Some ''a@x''\<rparr>],
      react_scenario_shares = [\<lparr>rs_id = 100, rs_source_scenario_id = 10, rs_shared_by_user_id = 1,
         rs_recipient_user_id = 2, rs_recipient_email = ''b@x'', rs_created_at = 5\<rparr>]\<rparr>)"
  by (simp add: share_defs)

lemma share_RecipientNotFound_iff:
  assumes "auth_uid ctx = Some a"
    and "select_source sid a (react_scenarios d) = Some src"
  shows "fst (react_share_scenario ctx sid inp d) = Inl RecipientNotFound
           \<longleftrightarrow> select_recipient inp (auth_users d) = None"
  using assms
  by (auto simp: react_share_scenario_def react_share_scenario_body_def Let_def
        insert_react_scenarios_def insert_react_scenario_shares_def
      split: option.splits prod.splits sum.splits if_splits)

text \<open>
  C7, amended. Once the caller is authenticated and owns the source, the call raises
  \<^verbatim>\<open>Recipient not found\<close> exactly when no row of \<^verbatim>\<open>auth.users\<close> has an email equal
  to the trimmed input, both in lower case. When one row or more match, it goes on with
  the first of them in scan order: a result, if there is one, names that row's id and
  email. It never rejects an input for matching more than one identity.
\<close>

theorem share_recipient_first_match:
  assumes "auth_uid ctx = Some a"
    and "select_source sid a (react_scenarios d) = Some src"
  shows "(fst (react_share_scenario ctx sid inp d) = Inl RecipientNotFound
            \<longleftrightarrow> filter (recipient_matches inp) (auth_users d) = [])
       \<and> (\<forall>r d'. react_share_scenario ctx sid inp d = (Inr r, d') \<longrightarrow>
            (\<exists>u rest. filter (recipient_matches inp) (auth_users d) = u # rest
               \<and> r_recipient_user_id r = u_id u
               \<and> Some (r_recipient_email r) = u_email u))"
proof -
  have 1: "fst (react_share_scenario ctx sid inp d) = Inl RecipientNotFound
            \<longleftrightarrow> filter (recipient_matches inp) (auth_users d) = []"
    using share_RecipientNotFound_iff [OF assms] by (simp add: select_recipient_None_iff)
  have 2: "\<exists>u rest. filter (recipient_matches inp) (auth_users d) = u # rest
               \<and> r_recipient_user_id r = u_id u
               \<and> Some (r_recipient_email r) = u_email u"
    if "react_share_scenario ctx sid inp d = (Inr r, d')" for r d'
  proof -
    from that have "react_share_scenario_body ctx sid inp d = (Inr r, d')"
      by (simp add: share_success_iff)
    then show ?thesis
      by (auto dest!: body_success simp: select_recipient_Some_iff)
  qed
  from 1 2 show ?thesis by blast
qed

theorem share_recipient_first_match_witness:
  "fst (react_share_scenario
     \<lparr>auth_uid = Some 1, gen_scenario_id = 11, gen_share_id = 100, now = 5\<rparr>
     (Some 10) (Some ''b@x'')
     \<lparr>auth_users = [\<lparr>u_id = 1, u_email = Some ''a@x''\<rparr>],
      react_scenarios = [\<lparr>s_id = 10, s_user_id = 1, s_name = ''Base'', s_description = None,
         s_overrides = ''{equity_us: {target_pe: 18.5}}'', s_base_currency = ''USD'', s_is_shared_copy = False,
         s_shared_from_scenario_id = None, s_shared_by_user_id = None,
         s_shared_by_email = None\<rparr>],
      react_scenario_shares = []\<rparr>)
   = Inl RecipientNotFound
   \<and> filter (recipient_matches (Some ''b@x''))
     [\<lparr>u_id = 1, u_email = Some ''a@x''\<rparr>] = []
   \<and> react_share_scenario
     \<lparr>auth_uid = Some 1, gen_scenario_id = 11, gen_share_id = 100, now = 5\<rparr>
     (Some 10) (Some ''b@x'')
     \<lparr>auth_users = [\<lparr>u_id = 1, u_email = Some ''a@x''\<rparr>,
        \<lparr>u_id = 2, u_email = Some ''b@x''\<rparr>,
        \<lparr>u_id = 3, u_email = Some ''B@x''\<rparr>],
      react_scenarios = [\<lparr>s_id = 10, s_user_id = 1, s_name = ''Base'', s_description = None,
         s_overrides = ''{equity_us: {target_pe: 18.5}}'', s_base_currency = ''USD'', s_is_shared_copy = False,
         s_shared_from_scenario_id = None, s_shared_by_user_id = None,
         s_shared_by_email = None\<rparr>],
      react_scenario_shares = []\<rparr>
   = (Inr \<lparr>r_shared_scenario_id = 11, r_shared_scenario_name = ''Base'',
        r_recipient_user_id = 2, r_recipient_email = ''b@x''\<rparr>,
     \<lparr>auth_users = [\<lparr>u_id = 1, u_email = Some ''a@x''\<rparr>,
        \<lparr>u_id = 2, u_email = Some ''b@x''\<rparr>,
        \<lparr>u_id = 3, u_email = Some ''B@x''\<rparr>],
      react_scenarios = [\<lparr>s_id = 10, s_user_id = 1, s_name = ''Base'', s_description = None,
         s_overrides = ''{equity_us: {target_pe: 18.5}}'', s_base_currency = ''USD'', s_is_shared_copy = False,
         s_shared_from_scenario_id = None, s_shared_by_user_id = None,
         s_shared_by_email = None\<rparr>,
        \<lparr>s_id = 11, s_user_id = 2, s_name = ''Base'', s_description = None,
         s_overrides = ''{equity_us: {target_pe: 18.5}}'', s_base_currency = ''USD'', s_is_shared_copy = True,
         s_shared_from_scenario_id = Some 10, s_shared_by_user_id = Some 1,
         s_shared_by_email = Some ''a@x''\<rparr>],
      react_scenario_shares = [\<lparr>rs_id = 100, rs_source_scenario_id = 10, rs_shared_by_user_id = 1,
         rs_recipient_user_id = 2, rs_recipient_email = ''b@x'', rs_created_at = 5\<rparr>]\<rparr>)
   \<and> filter (recipient_matches (Some ''b@x''))
     [\<lparr>u_id = 1, u_email = Some ''a@x''\<rparr>,
        \<lparr>u_id = 2, u_email = Some ''b@x''\<rparr>,
        \<lparr>u_id = 3, u_email = Some ''B@x''\<rparr>]
   = [\<lparr>u_id = 2, u_email = Some ''b@x''\<rparr>,
      \<lparr>u_id = 3, u_email = Some ''B@x''\<rparr>]"
proof -
  have none: "filter (recipient_matches (Some ''b@x''))
     [\<lparr>u_id = 1, u_email = Some ''a@x''\<rparr>] = []"
    by (simp add: share_defs)
  have src: "select_source (Some 10) 1 [\<lparr>s_id = 10, s_user_id = 1, s_name = ''Base'', s_description = None,
         s_overrides = ''{equity_us: {target_pe: 18.5}}'', s_base_currency = ''USD'', s_is_shared_copy = False,
         s_shared_from_scenario_id = None, s_shared_by_user_id = None,
         s_shared_by_email = None\<rparr>]
     = Some \<lparr>s_id = 10, s_user_id = 1, s_name = ''Base'', s_description = None,
         s_overrides = ''{equity_us: {target_pe: 18.5}}'', s_base_currency = ''USD'', s_is_shared_copy = False,
         s_shared_from_scenario_id = None, s_shared_by_user_id = None,
         s_shared_by_email = None\<rparr>"
    by (simp add: share_defs)
  have "fst (react_share_scenario
     \<lparr>auth_uid = Some 1, gen_scenario_id = 11, gen_share_id = 100, now = 5\<rparr>
     (Some 10) (Some ''b@x'')
     \<lparr>auth_users = [\<lparr>u_id = 1, u_email = Some ''a@x''\<rparr>],
      react_scenarios = [\<lparr>s_id = 10, s_user_id = 1, s_name = ''Base'', s_description = None,
         s_overrides = ''{equity_us: {target_pe: 18.5}}'', s_base_currency = ''USD'', s_is_shared_copy = False,
         s_shared_from_scenario_id = None, s_shared_by_user_id = None,
         s_shared_by_email = None\<rparr>],
      react_scenario_shares = []\<rparr>)
   = Inl RecipientNotFound"
    using none share_recipient_first_match [where a = 1 and sid = "Some 10"
      and inp = "Some ''b@x''" and src = "\<lparr>s_id = 10, s_user_id = 1, s_name = ''Base'', s_description = None,
         s_overrides = ''{equity_us: {target_pe: 18.5}}'', s_base_currency = ''USD'', s_is_shared_copy = False,
         s_shared_from_scenario_id = None, s_shared_by_user_id = None,
         s_shared_by_email = None\<rparr>"
      and ctx = "\<lparr>auth_uid = Some 1, gen_scenario_id = 11, gen_share_id = 100, now = 5\<rparr>"
      and d = "\<lparr>auth_users = [\<lparr>u_id = 1, u_email = Some ''a@x''\<rparr>],
      react_scenarios = [\<lparr>s_id = 10, s_user_id = 1, s_name = ''Base'', s_description = None,
         s_overrides = ''{equity_us: {target_pe: 18.5}}'', s_base_currency = ''USD'', s_is_shared_copy = False,
         s_shared_from_scenario_id = None, s_shared_by_user_id = None,
         s_shared_by_email = None\<rparr>],
      react_scenario_shares = []\<rparr>", THEN conjunct1] src
    by simp
  moreover have "react_share_scenario
     \<lparr>auth_uid = Some 1, gen_scenario_id = 11, gen_share_id = 100, now = 5\<rparr>
     (Some 10) (Some ''b@x'')
     \<lparr>auth_users = [\<lparr>u_id = 1, u_email = Some ''a@x''\<rparr>,
        \<lparr>u_id = 2, u_email = Some ''b@x''\<rparr>,
        \<lparr>u_id = 3, u_email = Some ''B@x''\<rparr>],
      react_scenarios = [\<lparr>s_id = 10, s_user_id = 1, s_name = ''Base'', s_description = None,
         s_overrides = ''{equity_us: {target_pe: 18.5}}'', s_base_currency = ''USD'', s_is_shared_copy = False,
         s_shared_from_scenario_id = None, s_shared_by_user_id = None,
         s_shared_by_email = None\<rparr>],
      react_scenario_shares = []\<rparr>
   = (Inr \<lparr>r_shared_scenario_id = 11, r_shared_scenario_name = ''Base'',
        r_recipient_user_id = 2, r_recipient_email = ''b@x''\<rparr>,
     \<lparr>auth_users = [\<lparr>u_id = 1, u_email = Some ''a@x''\<rparr>,
        \<lparr>u_id = 2, u_email = Some ''b@x''\<rparr>,
        \<lparr>u_id = 3, u_email = Some ''B@x''\<rparr>],
      react_scenarios = [\<lparr>s_id = 10, s_user_id = 1, s_name = ''Base'', s_description = None,
         s_overrides = ''{equity_us: {target_pe: 18.5}}'', s_base_currency = ''USD'', s_is_shared_copy = False,
         s_shared_from_scenario_id = None, s_shared_by_user_id = None,
         s_shared_by_email = None\<rparr>,
        \<lparr>s_id = 11, s_user_id = 2, s_name = ''Base'', s_description = None,
         s_overrides = ''{equity_us: {target_pe: 18.5}}'', s_base_currency = ''USD'', s_is_shared_copy = True,
         s_shared_from_scenario_id = Some 10, s_shared_by_user_id = Some 1,
         s_shared_by_email = Some ''a@x''\<rparr>],
      react_scenario_shares = [\<lparr>rs_id = 100, rs_source_scenario_id = 10, rs_shared_by_user_id = 1,
         rs_recipient_user_id = 2, rs_recipient_email = ''b@x'', rs_created_at = 5\<rparr>]\<rparr>)"
    by (simp add: share_defs)
  moreover have "filter (recipient_matches (Some ''b@x''))
     [\<lparr>u_id = 1, u_email = Some ''a@x''\<rparr>,
        \<lparr>u_id = 2, u_email = Some ''b@x''\<rparr>,
        \<lparr>u_id = 3, u_email = Some ''B@x''\<rparr>]
   = [\<lparr>u_id = 2, u_email = Some ''b@x''\<rparr>,
      \<lparr>u_id = 3, u_email = Some ''B@x''\<rparr>]"
    by (simp add: share_defs)
  ultimately show ?thesis
    using none by (intro conjI)
qed

subsection \<open>The copy and later edits of the source\<close>

lemma edit_scenario_other_id:
  "c \<noteq> s \<Longrightarrow>
     filter (\<lambda>x. s_id x = c) (react_scenarios (edit_scenario who s e d))
       = filter (\<lambda>x. s_id x = c) (react_scenarios d)"
proof -
  have "c \<noteq> s \<Longrightarrow>
     filter (\<lambda>x. s_id x = c)
       (map (\<lambda>x. if s_id x = s \<and> s_user_id x = who
                then x\<lparr>s_name := e_name e, s_description := e_description e,
                       s_overrides := e_overrides e,
                       s_base_currency := e_base_currency e\<rparr>
                else x) xs)
       = filter (\<lambda>x. s_id x = c) xs" for xs
    by (induction xs) auto
  then show "c \<noteq> s \<Longrightarrow> ?thesis"
    by (simp add: edit_scenario_def)
qed

lemma edits_other_id:
  "c \<noteq> s \<Longrightarrow>
     filter (\<lambda>x. s_id x = c) (react_scenarios (fold (edit_scenario who s) es d))
       = filter (\<lambda>x. s_id x = c) (react_scenarios d)"
  by (induction es arbitrary: d) (simp_all add: edit_scenario_other_id)

text \<open>
  C6. After a successful call the copy is the one row with the returned id, and it is
  still that row, field for field, after any sequence of edits of the source scenario:
  an edit rewrites rows by id, the copy has an id of its own, and its fields are values,
  not references to the source.
\<close>

theorem copy_independent_of_source:
  assumes "react_share_scenario ctx (Some s) inp d = (Inr r, d')"
  shows "\<exists>copy.
           filter (\<lambda>x. s_id x = r_shared_scenario_id r) (react_scenarios d') = [copy]
         \<and> filter (\<lambda>x. s_id x = r_shared_scenario_id r)
             (react_scenarios (fold (edit_scenario who s) es d')) = [copy]"
proof -
  from assms have "react_share_scenario_body ctx (Some s) inp d = (Inr r, d')"
    by (simp add: share_success_iff)
  then obtain a src b m where h:
    "select_source (Some s) a (react_scenarios d) = Some src"
    "gen_scenario_id ctx \<notin> set (map s_id (react_scenarios d))"
    "r = \<lparr>r_shared_scenario_id = gen_scenario_id ctx,
          r_shared_scenario_name = s_name src,
          r_recipient_user_id = b,
          r_recipient_email = m\<rparr>"
    "d' = d\<lparr>react_scenarios := react_scenarios d @
              [copy_values ctx src a (select_sender_email a (auth_users d)) b],
            react_scenario_shares := react_scenario_shares d @
              [share_values ctx src a b m]\<rparr>"
    using body_success by blast
  from h(1) have "src \<in> set (react_scenarios d)" "s_id src = s"
    by (auto dest: select_source_Some)
  with h(2) have ne: "gen_scenario_id ctx \<noteq> s"
    by auto
  from h(2) have "filter (\<lambda>x. s_id x = gen_scenario_id ctx) (react_scenarios d) = []"
    by (auto simp: filter_empty_conv image_iff)
  then have 1: "filter (\<lambda>x. s_id x = r_shared_scenario_id r) (react_scenarios d')
      = [copy_values ctx src a (select_sender_email a (auth_users d)) b]"
    by (simp add: h(3,4) copy_values_def)
  have 2: "filter (\<lambda>x. s_id x = r_shared_scenario_id r)
             (react_scenarios (fold (edit_scenario who s) es d'))
      = filter (\<lambda>x. s_id x = r_shared_scenario_id r) (react_scenarios d')"
    using ne by (simp add: h(3) edits_other_id)
  from 1 2 show ?thesis by simp
qed

theorem copy_independent_of_source_witness:
  "react_share_scenario
     \<lparr>auth_uid = Some 1, gen_scenario_id = 11, gen_share_id = 100, now = 5\<rparr>
     (Some 10) (Some ''bob@x'')
     \<lparr>auth_users = [\<lparr>u_id = 1, u_email = Some ''a@x''\<rparr>,
        \<lparr>u_id = 2, u_email = Some ''Bob@X''\<rparr>],
      react_scenarios = [\<lparr>s_id = 10, s_user_id = 1, s_name = ''Base'', s_description = None,
         s_overrides = ''{equity_us: {target_pe: 18.5}}'', s_base_currency = ''USD'', s_is_shared_copy = False,
         s_shared_from_scenario_id = None, s_shared_by_user_id = None,
         s_shared_by_email = None\<rparr>],
      react_scenario_shares = []\<rparr>
   = (Inr \<lparr>r_shared_scenario_id = 11, r_shared_scenario_name = ''Base'',
        r_recipient_user_id = 2, r_recipient_email = ''Bob@X''\<rparr>,
     \<lparr>auth_users = [\<lparr>u_id = 1, u_email = Some ''a@x''\<rparr>,
        \<lparr>u_id = 2, u_email = Some ''Bob@X''\<rparr>],
      react_scenarios = [\<lparr>s_id = 10, s_user_id = 1, s_name = ''Base'', s_description = None,
         s_overrides = ''{equity_us: {target_pe: 18.5}}'', s_base_currency = ''USD'', s_is_shared_copy = False,
         s_shared_from_scenario_id = None, s_shared_by_user_id = None,
         s_shared_by_email = None\<rparr>,
        \<lparr>s_id = 11, s_user_id = 2, s_name = ''Base'', s_description = None,
         s_overrides = ''{equity_us: {target_pe: 18.5}}'', s_base_currency = ''USD'', s_is_shared_copy = True,
         s_shared_from_scenario_id = Some 10, s_shared_by_user_id = Some 1,
         s_shared_by_email = Some ''a@x''\<rparr>],
      react_scenario_shares = [\<lparr>rs_id = 100, rs_source_scenario_id = 10, rs_shared_by_user_id = 1,
         rs_recipient_user_id = 2, rs_recipient_email = ''Bob@X'', rs_created_at = 5\<rparr>]\<rparr>)
   \<and> fold (edit_scenario 1 10)
       [\<lparr>e_name = ''Bear'', e_description = Some ''revised'', e_overrides = ''{}'', e_base_currency = ''EUR''\<rparr>]
     \<lparr>auth_users = [\<lparr>u_id = 1, u_email = Some ''a@x''\<rparr>,
        \<lparr>u_id = 2, u_email = Some ''Bob@X''\<rparr>],
      react_scenarios = [\<lparr>s_id = 10, s_user_id = 1, s_name = ''Base'', s_description = None,
         s_overrides = ''{equity_us: {target_pe: 18.5}}'', s_base_currency = ''USD'', s_is_shared_copy = False,
         s_shared_from_scenario_id = None, s_shared_by_user_id = None,
         s_shared_by_email = None\<rparr>,
        \<lparr>s_id = 11, s_user_id = 2, s_name = ''Base'', s_description = None,
         s_overrides = ''{equity_us: {target_pe: 18.5}}'', s_base_currency = ''USD'', s_is_shared_copy = True,
         s_shared_from_scenario_id = Some 10, s_shared_by_user_id = Some 1,
         s_shared_by_email = Some ''a@x''\<rparr>],
      react_scenario_shares = [\<lparr>rs_id = 100, rs_source_scenario_id = 10, rs_shared_by_user_id = 1,
         rs_recipient_user_id = 2, rs_recipient_email = ''Bob@X'', rs_created_at = 5\<rparr>]\<rparr>
   = \<lparr>auth_users = [\<lparr>u_id = 1, u_email = Some ''a@x''\<rparr>,
        \<lparr>u_id = 2, u_email = Some ''Bob@X''\<rparr>],
      react_scenarios = [\<lparr>s_id = 10, s_user_id = 1, s_name = ''Bear'', s_description = Some ''revised'',
         s_overrides = ''{}'', s_base_currency = ''EUR'', s_is_shared_copy = False,
         s_shared_from_scenario_id = None, s_shared_by_user_id = None,
         s_shared_by_email = None\<rparr>,
        \<lparr>s_id = 11, s_user_id = 2, s_name = ''Base'', s_description = None,
         s_overrides = ''{equity_us: {target_pe: 18.5}}'', s_base_currency = ''USD'', s_is_shared_copy = True,
         s_shared_from_scenario_id = Some 10, s_shared_by_user_id = Some 1,
         s_shared_by_email = Some ''a@x''\<rparr>],
      react_scenario_shares = [\<lparr>rs_id = 100, rs_source_scenario_id = 10, rs_shared_by_user_id = 1,
         rs_recipient_user_id = 2, rs_recipient_email = ''Bob@X'', rs_created_at = 5\<rparr>]\<rparr>"
proof -
  have run: "react_share_scenario
     \<lparr>auth_uid = Some 1, gen_scenario_id = 11, gen_share_id = 100, now = 5\<rparr>
     (Some 10) (Some ''bob@x'')
     \<lparr>auth_users = [\<lparr>u_id = 1, u_email = Some ''a@x''\<rparr>,
        \<lparr>u_id = 2, u_email = Some ''Bob@X''\<rparr>],
      react_scenarios = [\<lparr>s_id = 10, s_user_id = 1, s_name = ''Base'', s_description = None,
         s_overrides = ''{equity_us: {target_pe: 18.5}}'', s_base_currency = ''USD'', s_is_shared_copy = False,
         s_shared_from_scenario_id = None, s_shared_by_user_id = None,
         s_shared_by_email = None\<rparr>],
      react_scenario_shares = []\<rparr>
   = (Inr \<lparr>r_shared_scenario_id = 11, r_shared_scenario_name = ''Base'',
        r_recipient_user_id = 2, r_recipient_email = ''Bob@X''\<rparr>,
     \<lparr>auth_users = [\<lparr>u_id = 1, u_email = Some ''a@x''\<rparr>,
        \<lparr>u_id = 2, u_email = Some ''Bob@X''\<rparr>],
      react_scenarios = [\<lparr>s_id = 10, s_user_id = 1, s_name = ''Base'', s_description = None,
         s_overrides = ''{equity_us: {target_pe: 18.5}}'', s_base_currency = ''USD'', s_is_shared_copy = False,
         s_shared_from_scenario_id = None, s_shared_by_user_id = None,
         s_shared_by_email = None\<rparr>,
        \<lparr>s_id = 11, s_user_id = 2, s_name = ''Base'', s_description = None,
         s_overrides = ''{equity_us: {target_pe: 18.5}}'', s_base_currency = ''USD'', s_is_shared_copy = True,
         s_shared_from_scenario_id = Some 10, s_shared_by_user_id = Some 1,
         s_shared_by_email = Some ''a@x''\<rparr>],
      react_scenario_shares = [\<lparr>rs_id = 100, rs_source_scenario_id = 10, rs_shared_by_user_id = 1,
         rs_recipient_user_id = 2, rs_recipient_email = ''Bob@X'', rs_created_at = 5\<rparr>]\<rparr>)"
    by (simp add: share_defs)
  have "fold (edit_scenario 1 10)
       [\<lparr>e_name = ''Bear'', e_description = Some ''revised'', e_overrides = ''{}'', e_base_currency = ''EUR''\<rparr>]
     \<lparr>auth_users = [\<lparr>u_id = 1, u_email = Some ''a@x''\<rparr>,
        \<lparr>u_id = 2, u_email = Some ''Bob@X''\<rparr>],
      react_scenarios = [\<lparr>s_id = 10, s_user_id = 1, s_name = ''Base'', s_description = None,
         s_overrides = ''{equity_us: {target_pe: 18.5}}'', s_base_currency = ''USD'', s_is_shared_copy = False,
         s_shared_from_scenario_id = None, s_shared_by_user_id = None,
         s_shared_by_email = None\<rparr>,
        \<lparr>s_id = 11, s_user_id = 2, s_name = ''Base'', s_description = None,
         s_overrides = ''{equity_us: {target_pe: 18.5}}'', s_base_currency = ''USD'', s_is_shared_copy = True,
         s_shared_from_scenario_id = Some 10, s_shared_by_user_id = Some 1,
         s_shared_by_email = Some ''a@x''\<rparr>],
      react_scenario_shares = [\<lparr>rs_id = 100, rs_source_scenario_id = 10, rs_shared_by_user_id = 1,
         rs_recipient_user_id = 2, rs_recipient_email = ''Bob@X'', rs_created_at = 5\<rparr>]\<rparr>
   = \<lparr>auth_users = [\<lparr>u_id = 1, u_email = Some ''a@x''\<rparr>,
        \<lparr>u_id = 2, u_email = Some ''Bob@X''\<rparr>],
      react_scenarios = [\<lparr>s_id = 10, s_user_id = 1, s_name = ''Bear'', s_description = Some ''revised'',
         s_overrides = ''{}'', s_base_currency = ''EUR'', s_is_shared_copy = False,
         s_shared_from_scenario_id = None, s_shared_by_user_id = None,
         s_shared_by_email = None\<rparr>,
        \<lparr>s_id = 11, s_user_id = 2, s_name = ''Base'', s_description = None,
         s_overrides = ''{equity_us: {target_pe: 18.5}}'', s_base_currency = ''USD'', s_is_shared_copy = True,
         s_shared_from_scenario_id = Some 10, s_shared_by_user_id = Some 1,
         s_shared_by_email = Some ''a@x''\<rparr>],
      react_scenario_shares = [\<lparr>rs_id = 100, rs_source_scenario_id = 10, rs_shared_by_user_id = 1,
         rs_recipient_user_id = 2, rs_recipient_email = ''Bob@X'', rs_created_at = 5\<rparr>]\<rparr>"
    using copy_independent_of_source [OF run, where who = 1
      and es = "[\<lparr>e_name = ''Bear'', e_description = Some ''revised'', e_overrides = ''{}'', e_base_currency = ''EUR''\<rparr>]"]
    by (simp add: edit_scenario_def)
  with run show ?thesis
    by (intro conjI)
qed

subsection \<open>react_search_users_by_email\<close>

lemmas search_defs =
  react_search_users_by_email_def List.map_filter_simps lower_def lower_char_def trim_def
  coalesce_def

lemma sql_like_percent: "sql_like ''%'' t"
  by (induction t) simp_all

lemma sql_like_literal_prefix:
  "CHR ''%'' \<notin> set q \<Longrightarrow> CHR ''_'' \<notin> set q \<Longrightarrow> CHR 0x5C \<notin> set q \<Longrightarrow>
     sql_like (q @ ''%'') t = prefix q t"
proof (induction q arbitrary: t)
  case Nil
  then show ?case using sql_like_percent by simp
next
  case (Cons c q)
  then show ?case by (cases t) auto
qed

text \<open>
  C8. The test of the search is \<^verbatim>\<open>lower(u.email) LIKE normalized_query || '%'\<close>, with
  the query text used as a pattern. For the query \<^verbatim>\<open>a_\<close> it returns the user
  \<^verbatim>\<open>ab@x\<close>, whose email does not begin with \<^verbatim>\<open>a_\<close>: the underscore stands for any
  character. For the query \<^verbatim>\<open>%@x\<close> it returns the same user, whose email only contains
  \<^verbatim>\<open>@x\<close>: the percent sign stands for any run of characters.
\<close>

theorem search_query_is_a_pattern:
  "react_search_users_by_email
     \<lparr>auth_uid = Some 1, gen_scenario_id = 11, gen_share_id = 100, now = 5\<rparr>
     (Some ''a_'')
     \<lparr>auth_users = [\<lparr>u_id = 1, u_email = Some ''me@x''\<rparr>,
        \<lparr>u_id = 2, u_email = Some ''ab@x''\<rparr>],
      react_scenarios = [],
      react_scenario_shares = []\<rparr>
   = Inr [\<lparr>f_user_id = 2, f_email = ''ab@x''\<rparr>]
   \<and> \<not> prefix (lower (trim ''a_'')) (lower ''ab@x'')
   \<and> react_search_users_by_email
     \<lparr>auth_uid = Some 1, gen_scenario_id = 11, gen_share_id = 100, now = 5\<rparr>
     (Some ''%@x'')
     \<lparr>auth_users = [\<lparr>u_id = 1, u_email = Some ''me@x''\<rparr>,
        \<lparr>u_id = 2, u_email = Some ''ab@x''\<rparr>],
      react_scenarios = [],
      react_scenario_shares = []\<rparr>
   = Inr [\<lparr>f_user_id = 2, f_email = ''ab@x''\<rparr>]
   \<and> \<not> prefix (lower (trim ''%@x'')) (lower ''ab@x'')"
  by (simp add: search_defs)

lemma search_rows:
  assumes "react_search_users_by_email ctx q d = Inr res"
    and "f \<in> set res"
  shows "Some (f_user_id f) \<noteq> auth_uid ctx
       \<and> (\<exists>u \<in> set (auth_users d). u_id u = f_user_id f \<and> u_email u = Some (f_email f))
       \<and> 2 \<le> length (lower (trim (coalesce q '''')))
       \<and> sql_like (lower (trim (coalesce q '''')) @ ''%'') (lower (f_email f))"
proof -
  from assms obtain me where me: "auth_uid ctx = Some me"
    by (auto simp: react_search_users_by_email_def split: option.splits)
  define nq where "nq = lower (trim (coalesce q ''''))"
  define g where "g = (\<lambda>u :: users_row. case u_email u of
       None \<Rightarrow> None
     | Some e \<Rightarrow> if sql_like (nq @ ''%'') (lower e) \<and> u_id u \<noteq> me
                then Some \<lparr>f_user_id = u_id u, f_email = e\<rparr> else None)"
  from assms(1) me have res:
    "res = (if length nq < 2 then [] else take 10 (sort_key f_email (List.map_filter g (auth_users d))))"
    unfolding nq_def g_def
    by (auto simp: react_search_users_by_email_def Let_def split: if_splits)
  with assms(2) have long: "2 \<le> length nq" and "f \<in> set (take 10 (sort_key f_email (List.map_filter g (auth_users d))))"
    by (auto split: if_splits)
  then have "f \<in> set (List.map_filter g (auth_users d))"
    using set_take_subset by fastforce
  then obtain u where u: "u \<in> set (auth_users d)" "g u = Some f"
    by (auto simp: List.map_filter_def)
  then show ?thesis
    using me long unfolding g_def nq_def
    by (auto split: option.splits if_splits)
qed

text \<open>
  C9. Whatever the query, the rows the search returns to an authenticated caller never
  include a row with the caller's own user id, are at most 10, and are in ascending
  lexicographic order of the email. Every returned row is a registered user with that
  email, so that, when no two users of \<^verbatim>\<open>auth.users\<close> have the same email, the
  caller's own email is not among the returned ones either.
\<close>

theorem search_result_shape:
  assumes "react_search_users_by_email ctx q d = Inr res"
  shows "(\<forall>f \<in> set res. Some (f_user_id f) \<noteq> auth_uid ctx)
       \<and> length res \<le> 10
       \<and> sorted (map f_email res)
       \<and> ((\<forall>u \<in> set (auth_users d). \<forall>v \<in> set (auth_users d).
              u_email u = u_email v \<longrightarrow> u_id u = u_id v) \<longrightarrow>
          (\<forall>u \<in> set (auth_users d). \<forall>f \<in> set res.
              Some (u_id u) = auth_uid ctx \<longrightarrow> u_email u \<noteq> Some (f_email f)))"
proof -
  have 1: "\<forall>f \<in> set res. Some (f_user_id f) \<noteq> auth_uid ctx"
    using search_rows [OF assms] by blast
  from assms consider "res = []" | xs where "res = take 10 (sort_key f_email xs)"
    by (auto simp: react_search_users_by_email_def Let_def split: option.splits if_splits)
  note form = this
  have 2: "length res \<le> 10"
    using form by cases simp_all
  have srt: "sorted (map f_email (take 10 (sort_key f_email xs)))" for xs :: "found_user list"
    unfolding take_map [symmetric] by (rule sorted_wrt_take) (rule sorted_sort_key)
  have 3: "sorted (map f_email res)"
    using form
  proof cases
    case 1
    then show ?thesis by simp
  next
    case 2
    then show ?thesis by (simp only: srt)
  qed
  have 4: "(\<forall>u \<in> set (auth_users d). \<forall>v \<in> set (auth_users d).
              u_email u = u_email v \<longrightarrow> u_id u = u_id v) \<longrightarrow>
          (\<forall>u \<in> set (auth_users d). \<forall>f \<in> set res.
              Some (u_id u) = auth_uid ctx \<longrightarrow> u_email u \<noteq> Some (f_email f))"
  proof (intro impI ballI notI)
    fix u f
    assume uniq: "\<forall>u \<in> set (auth_users d). \<forall>v \<in> set (auth_users d).
              u_email u = u_email v \<longrightarrow> u_id u = u_id v"
      and u: "u \<in> set (auth_users d)" "Some (u_id u) = auth_uid ctx"
      and f: "f \<in> set res"
      and eq: "u_email u = Some (f_email f)"
    from search_rows [OF assms f] obtain v where
      v: "v \<in> set (auth_users d)" "u_id v = f_user_id f" "u_email v = Some (f_email f)"
      and ne: "Some (f_user_id f) \<noteq> auth_uid ctx"
      by blast
    from uniq u(1) v(1) have "u_email u = u_email v \<longrightarrow> u_id u = u_id v"
      by blast
    with eq v(3) have "u_id u = u_id v"
      by simp
    with u(2) v(2) ne show False
      by simp
  qed
  from 1 2 3 4 show ?thesis
    by (intro conjI)
qed

theorem search_result_shape_witness:
  "react_search_users_by_email
     \<lparr>auth_uid = Some 1, gen_scenario_id = 11, gen_share_id = 100, now = 5\<rparr>
     (Some '' BO'')
     \<lparr>auth_users = [\<lparr>u_id = 1, u_email = Some ''bo@x''\<rparr>,
        \<lparr>u_id = 2, u_email = Some ''bob@x''\<rparr>,
        \<lparr>u_id = 3, u_email = Some ''Boa@x''\<rparr>,
        \<lparr>u_id = 4, u_email = Some ''bart@x''\<rparr>,
        \<lparr>u_id = 5, u_email = None\<rparr>],
      react_scenarios = [],
      react_scenario_shares = []\<rparr>
   = Inr [\<lparr>f_user_id = 3, f_email = ''Boa@x''\<rparr>,
          \<lparr>f_user_id = 2, f_email = ''bob@x''\<rparr>]
   \<and> ''bo@x'' \<notin> set (map f_email
         [\<lparr>f_user_id = 3, f_email = ''Boa@x''\<rparr>,
          \<lparr>f_user_id = 2, f_email = ''bob@x''\<rparr>])
   \<and> sorted [''Boa@x'', ''bob@x'']"
proof -
  have run: "react_search_users_by_email
     \<lparr>auth_uid = Some 1, gen_scenario_id = 11, gen_share_id = 100, now = 5\<rparr>
     (Some '' BO'')
     \<lparr>auth_users = [\<lparr>u_id = 1, u_email = Some ''bo@x''\<rparr>,
        \<lparr>u_id = 2, u_email = Some ''bob@x''\<rparr>,
        \<lparr>u_id = 3, u_email = Some ''Boa@x''\<rparr>,
        \<lparr>u_id = 4, u_email = Some ''bart@x''\<rparr>,
        \<lparr>u_id = 5, u_email = None\<rparr>],
      react_scenarios = [],
      react_scenario_shares = []\<rparr>
   = Inr [\<lparr>f_user_id = 3, f_email = ''Boa@x''\<rparr>,
          \<lparr>f_user_id = 2, f_email = ''bob@x''\<rparr>]"
    by (simp add: search_defs)
  from search_result_shape [OF run] have "sorted (map f_email
         [\<lparr>f_user_id = 3, f_email = ''Boa@x''\<rparr>,
          \<lparr>f_user_id = 2, f_email = ''bob@x''\<rparr>])"
    by (elim conjE)
  then have "sorted [''Boa@x'', ''bob@x'']"
    by simp
  with run show ?thesis
    by simp
qed

subsection \<open>Atomicity of a share\<close>

lemma share_outcomes:
  "(\<exists>r copy audit.
      react_share_scenario ctx sid inp d =
        (Inr r, d\<lparr>react_scenarios := react_scenarios d @ [copy],
                  react_scenario_shares := react_scenario_shares d @ [audit]\<rparr>)
      \<and> s_id copy = r_shared_scenario_id r
      \<and> copy_of audit copy)
   \<or> (\<exists>e. react_share_scenario ctx sid inp d = (Inl e, d))"
proof -
  consider e where "react_share_scenario ctx sid inp d = (Inl e, d)"
    | r d' where "react_share_scenario ctx sid inp d = (Inr r, d')"
    using share_cases by blast
  then show ?thesis
  proof cases
    case 1
    then show ?thesis by blast
  next
    case 2
    then have "react_share_scenario_body ctx sid inp d = (Inr r, d')"
      by (simp add: share_success_iff)
    then obtain a src b m where
      "d' = d\<lparr>react_scenarios := react_scenarios d @
                [copy_values ctx src a (select_sender_email a (auth_users d)) b],
              react_scenario_shares := react_scenario_shares d @
                [share_values ctx src a b m]\<rparr>"
      and "r = \<lparr>r_shared_scenario_id = gen_scenario_id ctx,
                r_shared_scenario_name = s_name src,
                r_recipient_user_id = b,
                r_recipient_email = m\<rparr>"
      using body_success by blast
    with 2 show ?thesis
      by (intro disjI1 exI [of _ r]
            exI [of _ "copy_values ctx src a (select_sender_email a (auth_users d)) b"]
            exI [of _ "share_values ctx src a b m"])
         (simp add: copy_values_def share_values_def copy_of_def)
  qed
qed

lemma copies_paired_append:
  assumes "copies_paired d" and "copy_of audit copy"
  shows "copies_paired (d\<lparr>react_scenarios := react_scenarios d @ [copy],
                          react_scenario_shares := react_scenario_shares d @ [audit]\<rparr>)"
  using assms unfolding copies_paired_def
  by (simp add: ball_Un bex_Un)

lemma serve_copies_paired:
  assumes "copies_paired d"
  shows "copies_paired (serve ctx rq d)"
proof -
  consider "serve ctx rq d = d"
    | sid inp r where "react_share_scenario ctx sid inp d = (Inr r, serve ctx rq d)"
    using serve_cases [of ctx rq d] by blast
  then show ?thesis
  proof cases
    case 1
    with assms show ?thesis by simp
  next
    case 2
    with share_outcomes [of ctx sid inp d] obtain copy audit where
      "serve ctx rq d = d\<lparr>react_scenarios := react_scenarios d @ [copy],
                           react_scenario_shares := react_scenario_shares d @ [audit]\<rparr>"
      "copy_of audit copy"
      by auto
    with assms show ?thesis
      by (simp add: copies_paired_append)
  qed
qed

lemma run_copies_paired:
  "copies_paired d \<Longrightarrow> copies_paired (run rqs d)"
  by (induction rqs arbitrary: d) (auto simp: serve_copies_paired)

text \<open>
  C2. The call is all or nothing. Either it returns a result, and the tables are the old
  ones with exactly one row appended to \<^verbatim>\<open>react_scenarios\<close> (the copy) and exactly one
  row appended to \<^verbatim>\<open>react_scenario_shares\<close> (its audit row, for the same source,
  sender and recipient); or it raises an error and the tables are the ones it started
  from. No other outcome exists. So, from tables in which copies and audit rows are
  paired, no sequence of requests reaches tables with a copy that has no audit row or an
  audit row that has no copy.
\<close>

theorem share_atomic:
  "((\<exists>r copy audit.
      react_share_scenario ctx sid inp d =
        (Inr r, d\<lparr>react_scenarios := react_scenarios d @ [copy],
                  react_scenario_shares := react_scenario_shares d @ [audit]\<rparr>)
      \<and> s_id copy = r_shared_scenario_id r
      \<and> copy_of audit copy)
    \<or> (\<exists>e. react_share_scenario ctx sid inp d = (Inl e, d)))
   \<and> (copies_paired d \<longrightarrow> copies_paired (run rqs d))"
  using share_outcomes [of ctx sid inp d] run_copies_paired [of d rqs]
  by (intro conjI impI)

text \<open>
  An instance of each outcome. In the second the generated id of the audit row is taken:
  the body has inserted the copy when the second INSERT fails, and the call returns the
  tables without it.
\<close>

theorem share_atomic_witness:
  "copies_paired
     \<lparr>auth_users = [\<lparr>u_id = 1, u_email = Some ''a@x''\<rparr>,
        \<lparr>u_id = 2, u_email = Some ''Bob@X''\<rparr>],
      react_scenarios = [\<lparr>s_id = 10, s_user_id = 1, s_name = ''Base'', s_description = None,
         s_overrides = ''{equity_us: {target_pe: 18.5}}'', s_base_currency = ''USD'', s_is_shared_copy = False,
         s_shared_from_scenario_id = None, s_shared_by_user_id = None,
         s_shared_by_email = None\<rparr>],
      react_scenario_shares = []\<rparr>
   \<and> run [(\<lparr>auth_uid = Some 1, gen_scenario_id = 11, gen_share_id = 100, now = 5\<rparr>,
           Share_scenario (Some 10) (Some ''bob@x''))]
     \<lparr>auth_users = [\<lparr>u_id = 1, u_email = Some ''a@x''\<rparr>,
        \<lparr>u_id = 2, u_email = Some ''Bob@X''\<rparr>],
      react_scenarios = [\<lparr>s_id = 10, s_user_id = 1, s_name = ''Base'', s_description = None,
         s_overrides = ''{equity_us: {target_pe: 18.5}}'', s_base_currency = ''USD'', s_is_shared_copy = False,
         s_shared_from_scenario_id = None, s_shared_by_user_id = None,
         s_shared_by_email = None\<rparr>],
      react_scenario_shares = []\<rparr>
   = \<lparr>auth_users = [\<lparr>u_id = 1, u_email = Some ''a@x''\<rparr>,
        \<lparr>u_id = 2, u_email = Some ''Bob@X''\<rparr>],
      react_scenarios = [\<lparr>s_id = 10, s_user_id = 1, s_name = ''Base'', s_description = None,
         s_overrides = ''{equity_us: {target_pe: 18.5}}'', s_base_currency = ''USD'', s_is_shared_copy = False,
         s_shared_from_scenario_id = None, s_shared_by_user_id = None,
         s_shared_by_email = None\<rparr>,
        \<lparr>s_id = 11, s_user_id = 2, s_name = ''Base'', s_description = None,
         s_overrides = ''{equity_us: {target_pe: 18.5}}'', s_base_currency = ''USD'', s_is_shared_copy = True,
         s_shared_from_scenario_id = Some 10, s_shared_by_user_id = Some 1,
         s_shared_by_email = Some ''a@x''\<rparr>],
      react_scenario_shares = [\<lparr>rs_id = 100, rs_source_scenario_id = 10, rs_shared_by_user_id = 1,
         rs_recipient_user_id = 2, rs_recipient_email = ''Bob@X'', rs_created_at = 5\<rparr>]\<rparr>
   \<and> copies_paired
     \<lparr>auth_users = [\<lparr>u_id = 1, u_email = Some ''a@x''\<rparr>,
        \<lparr>u_id = 2, u_email = Some ''Bob@X''\<rparr>],
      react_scenarios = [\<lparr>s_id = 10, s_user_id = 1, s_name = ''Base'', s_description = None,
         s_overrides = ''{equity_us: {target_pe: 18.5}}'', s_base_currency = ''USD'', s_is_shared_copy = False,
         s_shared_from_scenario_id = None, s_shared_by_user_id = None,
         s_shared_by_email = None\<rparr>,
        \<lparr>s_id = 11, s_user_id = 2, s_name = ''Base'', s_description = None,
         s_overrides = ''{equity_us: {target_pe: 18.5}}'', s_base_currency = ''USD'', s_is_shared_copy = True,
         s_shared_from_scenario_id = Some 10, s_shared_by_user_id = Some 1,
         s_shared_by_email = Some ''a@x''\<rparr>],
      react_scenario_shares = [\<lparr>rs_id = 100, rs_source_scenario_id = 10, rs_shared_by_user_id = 1,
         rs_recipient_user_id = 2, rs_recipient_email = ''Bob@X'', rs_created_at = 5\<rparr>]\<rparr>
   \<and> react_share_scenario_body
     \<lparr>auth_uid = Some 1, gen_scenario_id = 11, gen_share_id = 100, now = 5\<rparr>
     (Some 10) (Some ''bob@x'')
     \<lparr>auth_users = [\<lparr>u_id = 1, u_email = Some ''a@x''\<rparr>,
        \<lparr>u_id = 2, u_email = Some ''Bob@X''\<rparr>],
      react_scenarios = [\<lparr>s_id = 10, s_user_id = 1, s_name = ''Base'', s_description = None,
         s_overrides = ''{equity_us: {target_pe: 18.5}}'', s_base_currency = ''USD'', s_is_shared_copy = False,
         s_shared_from_scenario_id = None, s_shared_by_user_id = None,
         s_shared_by_email = None\<rparr>],
      react_scenario_shares = [\<lparr>rs_id = 100, rs_source_scenario_id = 10, rs_shared_by_user_id = 1,
         rs_recipient_user_id = 3, rs_recipient_email = ''c@x'', rs_created_at = 1\<rparr>]\<rparr>
   = (Inl UniqueViolation,
     \<lparr>auth_users = [\<lparr>u_id = 1, u_email = Some ''a@x''\<rparr>,
        \<lparr>u_id = 2, u_email = Some ''Bob@X''\<rparr>],
      react_scenarios = [\<lparr>s_id = 10, s_user_id = 1, s_name = ''Base'', s_description = None,
         s_overrides = ''{equity_us: {target_pe: 18.5}}'', s_base_currency = ''USD'', s_is_shared_copy = False,
         s_shared_from_scenario_id = None, s_shared_by_user_id = None,
         s_shared_by_email = None\<rparr>,
        \<lparr>s_id = 11, s_user_id = 2, s_name = ''Base'', s_description = None,
         s_overrides = ''{equity_us: {target_pe: 18.5}}'', s_base_currency = ''USD'', s_is_shared_copy = True,
         s_shared_from_scenario_id = Some 10, s_shared_by_user_id = Some 1,
         s_shared_by_email = Some ''a@x''\<rparr>],
      react_scenario_shares = [\<lparr>rs_id = 100, rs_source_scenario_id = 10, rs_shared_by_user_id = 1,
         rs_recipient_user_id = 3, rs_recipient_email = ''c@x'', rs_created_at = 1\<rparr>]\<rparr>)
   \<and> react_share_scenario
     \<lparr>auth_uid = Some 1, gen_scenario_id = 11, gen_share_id = 100, now = 5\<rparr>
     (Some 10) (Some ''bob@x'')
     \<lparr>auth_users = [\<lparr>u_id = 1, u_email = Some ''a@x''\<rparr>,
        \<lparr>u_id = 2, u_email = Some ''Bob@X''\<rparr>],
      react_scenarios = [\<lparr>s_id = 10, s_user_id = 1, s_name = ''Base'', s_description = None,
         s_overrides = ''{equity_us: {target_pe: 18.5}}'', s_base_currency = ''USD'', s_is_shared_copy = False,
         s_shared_from_scenario_id = None, s_shared_by_user_id = None,
         s_shared_by_email = None\<rparr>],
      react_scenario_shares = [\<lparr>rs_id = 100, rs_source_scenario_id = 10, rs_shared_by_user_id = 1,
         rs_recipient_user_id = 3, rs_recipient_email = ''c@x'', rs_created_at = 1\<rparr>]\<rparr>
   = (Inl UniqueViolation,
     \<lparr>auth_users = [\<lparr>u_id = 1, u_email = Some ''a@x''\<rparr>,
        \<lparr>u_id = 2, u_email = Some ''Bob@X''\<rparr>],
      react_scenarios = [\<lparr>s_id = 10, s_user_id = 1, s_name = ''Base'', s_description = None,
         s_overrides = ''{equity_us: {target_pe: 18.5}}'', s_base_currency = ''USD'', s_is_shared_copy = False,
         s_shared_from_scenario_id = None, s_shared_by_user_id = None,
         s_shared_by_email = None\<rparr>],
      react_scenario_shares = [\<lparr>rs_id = 100, rs_source_scenario_id = 10, rs_shared_by_user_id = 1,
         rs_recipient_user_id = 3, rs_recipient_email = ''c@x'', rs_created_at = 1\<rparr>]\<rparr>)"
proof -
  have p0: "copies_paired
     \<lparr>auth_users = [\<lparr>u_id = 1, u_email = Some ''a@x''\<rparr>,
        \<lparr>u_id = 2, u_email = Some ''Bob@X''\<rparr>],
      react_scenarios = [\<lparr>s_id = 10, s_user_id = 1, s_name = ''Base'', s_description = None,
         s_overrides = ''{equity_us: {target_pe: 18.5}}'', s_base_currency = ''USD'', s_is_shared_copy = False,
         s_shared_from_scenario_id = None, s_shared_by_user_id = None,
         s_shared_by_email = None\<rparr>],
      react_scenario_shares = []\<rparr>"
    by (simp add: copies_paired_def copy_of_def)
  have r: "run [(\<lparr>auth_uid = Some 1, gen_scenario_id = 11, gen_share_id = 100, now = 5\<rparr>,
           Share_scenario (Some 10) (Some ''bob@x''))]
     \<lparr>auth_users = [\<lparr>u_id = 1, u_email = Some ''a@x''\<rparr>,
        \<lparr>u_id = 2, u_email = Some ''Bob@X''\<rparr>],
      react_scenarios = [\<lparr>s_id = 10, s_user_id = 1, s_name = ''Base'', s_description = None,
         s_overrides = ''{equity_us: {target_pe: 18.5}}'', s_base_currency = ''USD'', s_is_shared_copy = False,
         s_shared_from_scenario_id = None, s_shared_by_user_id = None,
         s_shared_by_email = None\<rparr>],
      react_scenario_shares = []\<rparr>
   = \<lparr>auth_users = [\<lparr>u_id = 1, u_email = Some ''a@x''\<rparr>,
        \<lparr>u_id = 2, u_email = Some ''Bob@X''\<rparr>],
      react_scenarios = [\<lparr>s_id = 10, s_user_id = 1, s_name = ''Base'', s_description = None,
         s_overrides = ''{equity_us: {target_pe: 18.5}}'', s_base_currency = ''USD'', s_is_shared_copy = False,
         s_shared_from_scenario_id = None, s_shared_by_user_id = None,
         s_shared_by_email = None\<rparr>,
        \<lparr>s_id = 11, s_user_id = 2, s_name = ''Base'', s_description = None,
         s_overrides = ''{equity_us: {target_pe: 18.5}}'', s_base_currency = ''USD'', s_is_shared_copy = True,
         s_shared_from_scenario_id = Some 10, s_shared_by_user_id = Some 1,
         s_shared_by_email = Some ''a@x''\<rparr>],
      react_scenario_shares = [\<lparr>rs_id = 100, rs_source_scenario_id = 10, rs_shared_by_user_id = 1,
         rs_recipient_user_id = 2, rs_recipient_email = ''Bob@X'', rs_created_at = 5\<rparr>]\<rparr>"
    by (simp add: share_defs)
  have "copies_paired (run [(\<lparr>auth_uid = Some 1, gen_scenario_id = 11, gen_share_id = 100, now = 5\<rparr>,
           Share_scenario (Some 10) (Some ''bob@x''))]
     \<lparr>auth_users = [\<lparr>u_id = 1, u_email = Some ''a@x''\<rparr>,
        \<lparr>u_id = 2, u_email = Some ''Bob@X''\<rparr>],
      react_scenarios = [\<lparr>s_id = 10, s_user_id = 1, s_name = ''Base'', s_description = None,
         s_overrides = ''{equity_us: {target_pe: 18.5}}'', s_base_currency = ''USD'', s_is_shared_copy = False,
         s_shared_from_scenario_id = None, s_shared_by_user_id = None,
         s_shared_by_email = None\<rparr>],
      react_scenario_shares = []\<rparr>)"
    using p0 share_atomic [where d = "\<lparr>auth_users = [\<lparr>u_id = 1, u_email = Some ''a@x''\<rparr>,
        \<lparr>u_id = 2, u_email = Some ''Bob@X''\<rparr>],
      react_scenarios = [\<lparr>s_id = 10, s_user_id = 1, s_name = ''Base'', s_description = None,
         s_overrides = ''{equity_us: {target_pe: 18.5}}'', s_base_currency = ''USD'', s_is_shared_copy = False,
         s_shared_from_scenario_id = None, s_shared_by_user_id = None,
         s_shared_by_email = None\<rparr>],
      react_scenario_shares = []\<rparr>"
      and rqs = "[(\<lparr>auth_uid = Some 1, gen_scenario_id = 11, gen_share_id = 100, now = 5\<rparr>,
           Share_scenario (Some 10) (Some ''bob@x''))]", THEN conjunct2]
    by (rule rev_mp)
  then have p1: "copies_paired
     \<lparr>auth_users = [\<lparr>u_id = 1, u_email = Some ''a@x''\<rparr>,
        \<lparr>u_id = 2, u_email = Some ''Bob@X''\<rparr>],
      react_scenarios = [\<lparr>s_id = 10, s_user_id = 1, s_name = ''Base'', s_description = None,
         s_overrides = ''{equity_us: {target_pe: 18.5}}'', s_base_currency = ''USD'', s_is_shared_copy = False,
         s_shared_from_scenario_id = None, s_shared_by_user_id = None,
         s_shared_by_email = None\<rparr>,
        \<lparr>s_id = 11, s_user_id = 2, s_name = ''Base'', s_description = None,
         s_overrides = ''{equity_us: {target_pe: 18.5}}'', s_base_currency = ''USD'', s_is_shared_copy = True,
         s_shared_from_scenario_id = Some 10, s_shared_by_user_id = Some 1,
         s_shared_by_email = Some ''a@x''\<rparr>],
      react_scenario_shares = [\<lparr>rs_id = 100, rs_source_scenario_id = 10, rs_shared_by_user_id = 1,
         rs_recipient_user_id = 2, rs_recipient_email = ''Bob@X'', rs_created_at = 5\<rparr>]\<rparr>"
    by (simp only: r)
  have b: "react_share_scenario_body
     \<lparr>auth_uid = Some 1, gen_scenario_id = 11, gen_share_id = 100, now = 5\<rparr>
     (Some 10) (Some ''bob@x'')
     \<lparr>auth_users = [\<lparr>u_id = 1, u_email = Some ''a@x''\<rparr>,
        \<lparr>u_id = 2, u_email = Some ''Bob@X''\<rparr>],
      react_scenarios = [\<lparr>s_id = 10, s_user_id = 1, s_name = ''Base'', s_description = None,
         s_overrides = ''{equity_us: {target_pe: 18.5}}'', s_base_currency = ''USD'', s_is_shared_copy = False,
         s_shared_from_scenario_id = None, s_shared_by_user_id = None,
         s_shared_by_email = None\<rparr>],
      react_scenario_shares = [\<lparr>rs_id = 100, rs_source_scenario_id = 10, rs_shared_by_user_id = 1,
         rs_recipient_user_id = 3, rs_recipient_email = ''c@x'', rs_created_at = 1\<rparr>]\<rparr>
   = (Inl UniqueViolation,
     \<lparr>auth_users = [\<lparr>u_id = 1, u_email = Some ''a@x''\<rparr>,
        \<lparr>u_id = 2, u_email = Some ''Bob@X''\<rparr>],
      react_scenarios = [\<lparr>s_id = 10, s_user_id = 1, s_name = ''Base'', s_description = None,
         s_overrides = ''{equity_us: {target_pe: 18.5}}'', s_base_currency = ''USD'', s_is_shared_copy = False,
         s_shared_from_scenario_id = None, s_shared_by_user_id = None,
         s_shared_by_email = None\<rparr>,
        \<lparr>s_id = 11, s_user_id = 2, s_name = ''Base'', s_description = None,
         s_overrides = ''{equity_us: {target_pe: 18.5}}'', s_base_currency = ''USD'', s_is_shared_copy = True,
         s_shared_from_scenario_id = Some 10, s_shared_by_user_id = Some 1,
         s_shared_by_email = Some ''a@x''\<rparr>],
      react_scenario_shares = [\<lparr>rs_id = 100, rs_source_scenario_id = 10, rs_shared_by_user_id = 1,
         rs_recipient_user_id = 3, rs_recipient_email = ''c@x'', rs_created_at = 1\<rparr>]\<rparr>)"
    by (simp add: share_defs)
  have c: "react_share_scenario
     \<lparr>auth_uid = Some 1, gen_scenario_id = 11, gen_share_id = 100, now = 5\<rparr>
     (Some 10) (Some ''bob@x'')
     \<lparr>auth_users = [\<lparr>u_id = 1, u_email = Some ''a@x''\<rparr>,
        \<lparr>u_id = 2, u_email = Some ''Bob@X''\<rparr>],
      react_scenarios = [\<lparr>s_id = 10, s_user_id = 1, s_name = ''Base'', s_description = None,
         s_overrides = ''{equity_us: {target_pe: 18.5}}'', s_base_currency = ''USD'', s_is_shared_copy = False,
         s_shared_from_scenario_id = None, s_shared_by_user_id = None,
         s_shared_by_email = None\<rparr>],
      react_scenario_shares = [\<lparr>rs_id = 100, rs_source_scenario_id = 10, rs_shared_by_user_id = 1,
         rs_recipient_user_id = 3, rs_recipient_email = ''c@x'', rs_created_at = 1\<rparr>]\<rparr>
   = (Inl UniqueViolation,
     \<lparr>auth_users = [\<lparr>u_id = 1, u_email = Some ''a@x''\<rparr>,
        \<lparr>u_id = 2, u_email = Some ''Bob@X''\<rparr>],
      react_scenarios = [\<lparr>s_id = 10, s_user_id = 1, s_name = ''Base'', s_description = None,
         s_overrides = ''{equity_us: {target_pe: 18.5}}'', s_base_currency = ''USD'', s_is_shared_copy = False,
         s_shared_from_scenario_id = None, s_shared_by_user_id = None,
         s_shared_by_email = None\<rparr>],
      react_scenario_shares = [\<lparr>rs_id = 100, rs_source_scenario_id = 10, rs_shared_by_user_id = 1,
         rs_recipient_user_id = 3, rs_recipient_email = ''c@x'', rs_created_at = 1\<rparr>]\<rparr>)"
    by (simp add: share_defs)
  from p0 r p1 b c show ?thesis
    by (intro conjI)
qed

subsection \<open>Inputs with the same normal form\<close>

lemma lower_char_space: "lower_char c = CHR '' '' \<longleftrightarrow> c = CHR '' ''"
  by (auto simp: lower_char_def split: option.splits if_splits)

lemma letter_pair_lower_char:
  assumes "(c, c') \<in> set (zip ''ABCDEFGHIJKLMNOPQRSTUVWXYZ'' ''abcdefghijklmnopqrstuvwxyz'')"
  shows "lower_char c = c' \<and> lower_char c' = c'"
  using assms
  apply simp
  apply (elim disjE conjE)
  apply (simp_all add: lower_char_def)
  done

lemma same_letter_lower_char: "same_letter c c' \<Longrightarrow> lower_char c = lower_char c'"
  unfolding same_letter_def
  using letter_pair_lower_char [of c c'] letter_pair_lower_char [of c' c]
  by (elim disjE) simp_all

lemma same_letters_lower: "list_all2 same_letter s t \<Longrightarrow> lower s = lower t"
  by (induction rule: list_all2_induct) (simp_all add: lower_def same_letter_lower_char)

lemma dropWhile_space_lower:
  "dropWhile (\<lambda>c. c = CHR '' '') (map lower_char xs)
     = map lower_char (dropWhile (\<lambda>c. c = CHR '' '') xs)"
  by (induction xs) (simp_all add: lower_char_space)

lemma trim_lower: "trim (lower s) = lower (trim s)"
  by (simp add: trim_def lower_def dropWhile_space_lower rev_map)

lemma dropWhile_spaces:
  "dropWhile (\<lambda>c. c = CHR '' '') (replicate n (CHR '' '') @ xs)
     = dropWhile (\<lambda>c. c = CHR '' '') xs"
  by (induction n) simp_all

lemma dropWhile_rev_spaces:
  "dropWhile (\<lambda>c. c = CHR '' '')
     (rev (dropWhile (\<lambda>c. c = CHR '' '') (s @ replicate m (CHR '' ''))))
   = dropWhile (\<lambda>c. c = CHR '' '') (rev (dropWhile (\<lambda>c. c = CHR '' '') s))"
proof (induction s)
  case Nil
  have "dropWhile (\<lambda>c. c = CHR '' '') (replicate m (CHR '' '')) = []"
    by (induction m) simp_all
  then show ?case by simp
next
  case (Cons x s)
  show ?case
  proof (cases "x = CHR '' ''")
    case True
    with Cons show ?thesis by simp
  next
    case False
    then show ?thesis
      using dropWhile_spaces [of m "rev s @ [x]"] by simp
  qed
qed

lemma trim_surrounding_spaces:
  "trim (replicate n (CHR '' '') @ s @ replicate m (CHR '' '')) = trim s"
  by (simp add: trim_def dropWhile_spaces dropWhile_rev_spaces)

lemma norm_spaces_case:
  assumes "list_all2 same_letter s t"
  shows "lower (trim (replicate n' (CHR '' '') @ t @ replicate m' (CHR '' '')))
       = lower (trim (replicate n (CHR '' '') @ s @ replicate m (CHR '' '')))"
proof -
  have "lower (trim t) = lower (trim s)"
    using same_letters_lower [OF assms] by (simp add: trim_lower [symmetric])
  then show ?thesis
    by (simp only: trim_surrounding_spaces)
qed

text \<open>
  C10, as the claim has it, fails for whitespace other than the space character: with a
  tab in front of it, or a line feed after it, an input that resolves to a recipient no
  longer does, since \<^verbatim>\<open>trim\<close> keeps both.
\<close>

theorem share_tab_not_trimmed:
  "react_share_scenario
     \<lparr>auth_uid = Some 1, gen_scenario_id = 11, gen_share_id = 100, now = 5\<rparr>
     (Some 10) (Some ''bob@x'')
     \<lparr>auth_users = [\<lparr>u_id = 1, u_email = Some ''a@x''\<rparr>,
        \<lparr>u_id = 2, u_email = Some ''Bob@X''\<rparr>],
      react_scenarios = [\<lparr>s_id = 10, s_user_id = 1, s_name = ''Base'', s_description = None,
         s_overrides = ''{equity_us: {target_pe: 18.5}}'', s_base_currency = ''USD'', s_is_shared_copy = False,
         s_shared_from_scenario_id = None, s_shared_by_user_id = None,
         s_shared_by_email = None\<rparr>],
      react_scenario_shares = []\<rparr>
   = (Inr \<lparr>r_shared_scenario_id = 11, r_shared_scenario_name = ''Base'',
        r_recipient_user_id = 2, r_recipient_email = ''Bob@X''\<rparr>,
     \<lparr>auth_users = [\<lparr>u_id = 1, u_email = Some ''a@x''\<rparr>,
        \<lparr>u_id = 2, u_email = Some ''Bob@X''\<rparr>],
      react_scenarios = [\<lparr>s_id = 10, s_user_id = 1, s_name = ''Base'', s_description = None,
         s_overrides = ''{equity_us: {target_pe: 18.5}}'', s_base_currency = ''USD'', s_is_shared_copy = False,
         s_shared_from_scenario_id = None, s_shared_by_user_id = None,
         s_shared_by_email = None\<rparr>,
        \<lparr>s_id = 11, s_user_id = 2, s_name = ''Base'', s_description = None,
         s_overrides = ''{equity_us: {target_pe: 18.5}}'', s_base_currency = ''USD'', s_is_shared_copy = True,
         s_shared_from_scenario_id = Some 10, s_shared_by_user_id = Some 1,
         s_shared_by_email = Some ''a@x''\<rparr>],
      react_scenario_shares = [\<lparr>rs_id = 100, rs_source_scenario_id = 10, rs_shared_by_user_id = 1,
         rs_recipient_user_id = 2, rs_recipient_email = ''Bob@X'', rs_created_at = 5\<rparr>]\<rparr>)
   \<and> react_share_scenario
     \<lparr>auth_uid = Some 1, gen_scenario_id = 11, gen_share_id = 100, now = 5\<rparr>
     (Some 10) (Some (CHR 0x09 # ''bob@x''))
     \<lparr>auth_users = [\<lparr>u_id = 1, u_email = Some ''a@x''\<rparr>,
        \<lparr>u_id = 2, u_email = Some ''Bob@X''\<rparr>],
      react_scenarios = [\<lparr>s_id = 10, s_user_id = 1, s_name = ''Base'', s_description = None,
         s_overrides = ''{equity_us: {target_pe: 18.5}}'', s_base_currency = ''USD'', s_is_shared_copy = False,
         s_shared_from_scenario_id = None, s_shared_by_user_id = None,
         s_shared_by_email = None\<rparr>],
      react_scenario_shares = []\<rparr>
   = (Inl RecipientNotFound,
     \<lparr>auth_users = [\<lparr>u_id = 1, u_email = Some ''a@x''\<rparr>,
        \<lparr>u_id = 2, u_email = Some ''Bob@X''\<rparr>],
      react_scenarios = [\<lparr>s_id = 10, s_user_id = 1, s_name = ''Base'', s_description = None,
         s_overrides = ''{equity_us: {target_pe: 18.5}}'', s_base_currency = ''USD'', s_is_shared_copy = False,
         s_shared_from_scenario_id = None, s_shared_by_user_id = None,
         s_shared_by_email = None\<rparr>],
      react_scenario_shares = []\<rparr>)
   \<and> react_share_scenario
     \<lparr>auth_uid = Some 1, gen_scenario_id = 11, gen_share_id = 100, now = 5\<rparr>
     (Some 10) (Some (''bob@x'' @ [CHR 0x0A]))
     \<lparr>auth_users = [\<lparr>u_id = 1, u_email = Some ''a@x''\<rparr>,
        \<lparr>u_id = 2, u_email = Some ''Bob@X''\<rparr>],
      react_scenarios = [\<lparr>s_id = 10, s_user_id = 1, s_name = ''Base'', s_description = None,
         s_overrides = ''{equity_us: {target_pe: 18.5}}'', s_base_currency = ''USD'', s_is_shared_copy = False,
         s_shared_from_scenario_id = None, s_shared_by_user_id = None,
         s_shared_by_email = None\<rparr>],
      react_scenario_shares = []\<rparr>
   = (Inl RecipientNotFound,
     \<lparr>auth_users = [\<lparr>u_id = 1, u_email = Some ''a@x''\<rparr>,
        \<lparr>u_id = 2, u_email = Some ''Bob@X''\<rparr>],
      react_scenarios = [\<lparr>s_id = 10, s_user_id = 1, s_name = ''Base'', s_description = None,
         s_overrides = ''{equity_us: {target_pe: 18.5}}'', s_base_currency = ''USD'', s_is_shared_copy = False,
         s_shared_from_scenario_id = None, s_shared_by_user_id = None,
         s_shared_by_email = None\<rparr>],
      react_scenario_shares = []\<rparr>)"
  by (simp add: share_defs)

text \<open>
  C10, amended. After a successful call the identifier returned to the caller and the
  one stored in the new audit row are the email of the recipient's row in
  \<^verbatim>\<open>auth.users\<close>, as it is stored there; the input only has to agree with it after
  \<^verbatim>\<open>lower(trim(...))\<close>. Every input with the same value of \<^verbatim>\<open>lower(trim(...))\<close> gives
  the same result and the same tables; so does, in particular, every input that differs
  from the given one only in the number of space characters around it and in the case
  of ASCII letters.
\<close>

theorem share_returns_registered_identifier:
  assumes "react_share_scenario ctx sid (Some i1) d = (Inr r, d')"
  shows "(\<exists>u \<in> set (auth_users d).
            u_id u = r_recipient_user_id r
          \<and> u_email u = Some (r_recipient_email r)
          \<and> lower (r_recipient_email r) = lower (trim i1))
       \<and> (\<exists>audit.
            react_scenario_shares d' = react_scenario_shares d @ [audit]
          \<and> rs_recipient_user_id audit = r_recipient_user_id r
          \<and> rs_recipient_email audit = r_recipient_email r)
       \<and> (\<forall>i2. lower (trim i2) = lower (trim i1) \<longrightarrow>
            react_share_scenario ctx sid (Some i2) d = (Inr r, d'))
       \<and> (\<forall>n m n' m' s t.
            i1 = replicate n (CHR '' '') @ s @ replicate m (CHR '' '')
            \<and> list_all2 same_letter s t \<longrightarrow>
            react_share_scenario ctx sid
              (Some (replicate n' (CHR '' '') @ t @ replicate m' (CHR '' ''))) d = (Inr r, d'))"
proof -
  from assms have "react_share_scenario_body ctx sid (Some i1) d = (Inr r, d')"
    by (simp add: share_success_iff)
  then obtain a src b m where h:
    "select_recipient (Some i1) (auth_users d) = Some (b, m)"
    "r = \<lparr>r_shared_scenario_id = gen_scenario_id ctx,
          r_shared_scenario_name = s_name src,
          r_recipient_user_id = b,
          r_recipient_email = m\<rparr>"
    "d' = d\<lparr>react_scenarios := react_scenarios d @
              [copy_values ctx src a (select_sender_email a (auth_users d)) b],
            react_scenario_shares := react_scenario_shares d @
              [share_values ctx src a b m]\<rparr>"
    using body_success by blast
  from h(1) obtain u where u:
    "u \<in> set (auth_users d)" "u_id u = b" "u_email u = Some m" "recipient_matches (Some i1) u"
    using select_recipient_Some_mem by blast
  from u(3,4) have "lower m = lower (trim i1)"
    by (simp add: recipient_matches_def)
  with u h(2) have 1: "\<exists>u \<in> set (auth_users d).
            u_id u = r_recipient_user_id r
          \<and> u_email u = Some (r_recipient_email r)
          \<and> lower (r_recipient_email r) = lower (trim i1)"
    by auto
  from h(2,3) have 2: "\<exists>audit.
            react_scenario_shares d' = react_scenario_shares d @ [audit]
          \<and> rs_recipient_user_id audit = r_recipient_user_id r
          \<and> rs_recipient_email audit = r_recipient_email r"
    by (simp add: share_values_def)
  have same: "react_share_scenario ctx sid (Some i2) d = (Inr r, d')"
    if "lower (trim i2) = lower (trim i1)" for i2
    using assms by (simp only: share_norm [OF that])
  then have 3: "\<forall>i2. lower (trim i2) = lower (trim i1) \<longrightarrow>
            react_share_scenario ctx sid (Some i2) d = (Inr r, d')"
    by (intro allI impI)
  have 4: "\<forall>n m n' m' s t.
            i1 = replicate n (CHR '' '') @ s @ replicate m (CHR '' '')
            \<and> list_all2 same_letter s t \<longrightarrow>
            react_share_scenario ctx sid
              (Some (replicate n' (CHR '' '') @ t @ replicate m' (CHR '' ''))) d = (Inr r, d')"
  proof (intro allI impI, elim conjE)
    fix n m n' m' :: nat and s t :: string
    assume i1: "i1 = replicate n (CHR '' '') @ s @ replicate m (CHR '' '')"
      and st: "list_all2 same_letter s t"
    have "lower (trim (replicate n' (CHR '' '') @ t @ replicate m' (CHR '' '')))
        = lower (trim i1)"
      unfolding i1 by (rule norm_spaces_case [OF st])
    then show "react_share_scenario ctx sid
              (Some (replicate n' (CHR '' '') @ t @ replicate m' (CHR '' ''))) d = (Inr r, d')"
      by (rule same)
  qed
  from 1 2 3 4 show ?thesis
    by (intro conjI)
qed

theorem share_returns_registered_identifier_witness:
  "''  BOB@x '' = replicate (Suc (Suc 0)) (CHR '' '') @ ''BOB@x'' @ replicate (Suc 0) (CHR '' '')
   \<and> list_all2 same_letter ''BOB@x'' ''bob@x''
   \<and> react_share_scenario
     \<lparr>auth_uid = Some 1, gen_scenario_id = 11, gen_share_id = 100, now = 5\<rparr>
     (Some 10) (Some ''  BOB@x '')
     \<lparr>auth_users = [\<lparr>u_id = 1, u_email = Some ''a@x''\<rparr>,
        \<lparr>u_id = 2, u_email = Some ''Bob@X''\<rparr>],
      react_scenarios = [\<lparr>s_id = 10, s_user_id = 1, s_name = ''Base'', s_description = None,
         s_overrides = ''{equity_us: {target_pe: 18.5}}'', s_base_currency = ''USD'', s_is_shared_copy = False,
         s_shared_from_scenario_id = None, s_shared_by_user_id = None,
         s_shared_by_email = None\<rparr>],
      react_scenario_shares = []\<rparr>
   = (Inr \<lparr>r_shared_scenario_id = 11, r_shared_scenario_name = ''Base'',
        r_recipient_user_id = 2, r_recipient_email = ''Bob@X''\<rparr>,
     \<lparr>auth_users = [\<lparr>u_id = 1, u_email = Some ''a@x''\<rparr>,
        \<lparr>u_id = 2, u_email = Some ''Bob@X''\<rparr>],
      react_scenarios = [\<lparr>s_id = 10, s_user_id = 1, s_name = ''Base'', s_description = None,
         s_overrides = ''{equity_us: {target_pe: 18.5}}'', s_base_currency = ''USD'', s_is_shared_copy = False,
         s_shared_from_scenario_id = None, s_shared_by_user_id = None,
         s_shared_by_email = None\<rparr>,
        \<lparr>s_id = 11, s_user_id = 2, s_name = ''Base'', s_description = None,
         s_overrides = ''{equity_us: {target_pe: 18.5}}'', s_base_currency = ''USD'', s_is_shared_copy = True,
         s_shared_from_scenario_id = Some 10, s_shared_by_user_id = Some 1,
         s_shared_by_email = Some ''a@x''\<rparr>],
      react_scenario_shares = [\<lparr>rs_id = 100, rs_source_scenario_id = 10, rs_shared_by_user_id = 1,
         rs_recipient_user_id = 2, rs_recipient_email = ''Bob@X'', rs_created_at = 5\<rparr>]\<rparr>)
   \<and> react_share_scenario
     \<lparr>auth_uid = Some 1, gen_scenario_id = 11, gen_share_id = 100, now = 5\<rparr>
     (Some 10) (Some ''bob@x'')
     \<lparr>auth_users = [\<lparr>u_id = 1, u_email = Some ''a@x''\<rparr>,
        \<lparr>u_id = 2, u_email = Some ''Bob@X''\<rparr>],
      react_scenarios = [\<lparr>s_id = 10, s_user_id = 1, s_name = ''Base'', s_description = None,
         s_overrides = ''{equity_us: {target_pe: 18.5}}'', s_base_currency = ''USD'', s_is_shared_copy = False,
         s_shared_from_scenario_id = None, s_shared_by_user_id = None,
         s_shared_by_email = None\<rparr>],
      react_scenario_shares = []\<rparr>
   = (Inr \<lparr>r_shared_scenario_id = 11, r_shared_scenario_name = ''Base'',
        r_recipient_user_id = 2, r_recipient_email = ''Bob@X''\<rparr>,
     \<lparr>auth_users = [\<lparr>u_id = 1, u_email = Some ''a@x''\<rparr>,
        \<lparr>u_id = 2, u_email = Some ''Bob@X''\<rparr>],
      react_scenarios = [\<lparr>s_id = 10, s_user_id = 1, s_name = ''Base'', s_description = None,
         s_overrides = ''{equity_us: {target_pe: 18.5}}'', s_base_currency = ''USD'', s_is_shared_copy = False,
         s_shared_from_scenario_id = None, s_shared_by_user_id = None,
         s_shared_by_email = None\<rparr>,
        \<lparr>s_id = 11, s_user_id = 2, s_name = ''Base'', s_description = None,
         s_overrides = ''{equity_us: {target_pe: 18.5}}'', s_base_currency = ''USD'', s_is_shared_copy = True,
         s_shared_from_scenario_id = Some 10, s_shared_by_user_id = Some 1,
         s_shared_by_email = Some ''a@x''\<rparr>],
      react_scenario_shares = [\<lparr>rs_id = 100, rs_source_scenario_id = 10, rs_shared_by_user_id = 1,
         rs_recipient_user_id = 2, rs_recipient_email = ''Bob@X'', rs_created_at = 5\<rparr>]\<rparr>)"
proof -
  have run: "react_share_scenario
     \<lparr>auth_uid = Some 1, gen_scenario_id = 11, gen_share_id = 100, now = 5\<rparr>
     (Some 10) (Some ''  BOB@x '')
     \<lparr>auth_users = [\<lparr>u_id = 1, u_email = Some ''a@x''\<rparr>,
        \<lparr>u_id = 2, u_email = Some ''Bob@X''\<rparr>],
      react_scenarios = [\<lparr>s_id = 10, s_user_id = 1, s_name = ''Base'', s_description = None,
         s_overrides = ''{equity_us: {target_pe: 18.5}}'', s_base_currency = ''USD'', s_is_shared_copy = False,
         s_shared_from_scenario_id = None, s_shared_by_user_id = None,
         s_shared_by_email = None\<rparr>],
      react_scenario_shares = []\<rparr>
   = (Inr \<lparr>r_shared_scenario_id = 11, r_shared_scenario_name = ''Base'',
        r_recipient_user_id = 2, r_recipient_email = ''Bob@X''\<rparr>,
     \<lparr>auth_users = [\<lparr>u_id = 1, u_email = Some ''a@x''\<rparr>,
        \<lparr>u_id = 2, u_email = Some ''Bob@X''\<rparr>],
      react_scenarios = [\<lparr>s_id = 10, s_user_id = 1, s_name = ''Base'', s_description = None,
         s_overrides = ''{equity_us: {target_pe: 18.5}}'', s_base_currency = ''USD'', s_is_shared_copy = False,
         s_shared_from_scenario_id = None, s_shared_by_user_id = None,
         s_shared_by_email = None\<rparr>,
        \<lparr>s_id = 11, s_user_id = 2, s_name = ''Base'', s_description = None,
         s_overrides = ''{equity_us: {target_pe: 18.5}}'', s_base_currency = ''USD'', s_is_shared_copy = True,
         s_shared_from_scenario_id = Some 10, s_shared_by_user_id = Some 1,
         s_shared_by_email = Some ''a@x''\<rparr>],
      react_scenario_shares = [\<lparr>rs_id = 100, rs_source_scenario_id = 10, rs_shared_by_user_id = 1,
         rs_recipient_user_id = 2, rs_recipient_email = ''Bob@X'', rs_created_at = 5\<rparr>]\<rparr>)"
    by (simp add: share_defs)
  have form: "''  BOB@x ''
      = replicate (Suc (Suc 0)) (CHR '' '') @ ''BOB@x'' @ replicate (Suc 0) (CHR '' '')"
    by simp
  have letters: "list_all2 same_letter ''BOB@x'' ''bob@x''"
    by (simp add: same_letter_def)
  from share_returns_registered_identifier [OF run]
  have "\<forall>n m n' m' s t.
            ''  BOB@x '' = replicate n (CHR '' '') @ s @ replicate m (CHR '' '')
            \<and> list_all2 same_letter s t \<longrightarrow>
            react_share_scenario
              \<lparr>auth_uid = Some 1, gen_scenario_id = 11, gen_share_id = 100, now = 5\<rparr>
              (Some 10)
              (Some (replicate n' (CHR '' '') @ t @ replicate m' (CHR '' '')))
              \<lparr>auth_users = [\<lparr>u_id = 1, u_email = Some ''a@x''\<rparr>,
        \<lparr>u_id = 2, u_email = Some ''Bob@X''\<rparr>],
      react_scenarios = [\<lparr>s_id = 10, s_user_id = 1, s_name = ''Base'', s_description = None,
         s_overrides = ''{equity_us: {target_pe: 18.5}}'', s_base_currency = ''USD'', s_is_shared_copy = False,
         s_shared_from_scenario_id = None, s_shared_by_user_id = None,
         s_shared_by_email = None\<rparr>],
      react_scenario_shares = []\<rparr>
            = (Inr \<lparr>r_shared_scenario_id = 11, r_shared_scenario_name = ''Base'',
        r_recipient_user_id = 2, r_recipient_email = ''Bob@X''\<rparr>,
              \<lparr>auth_users = [\<lparr>u_id = 1, u_email = Some ''a@x''\<rparr>,
        \<lparr>u_id = 2, u_email = Some ''Bob@X''\<rparr>],
      react_scenarios = [\<lparr>s_id = 10, s_user_id = 1, s_name = ''Base'', s_description = None,
         s_overrides = ''{equity_us: {target_pe: 18.5}}'', s_base_currency = ''USD'', s_is_shared_copy = False,
         s_shared_from_scenario_id = None, s_shared_by_user_id = None,
         s_shared_by_email = None\<rparr>,
        \<lparr>s_id = 11, s_user_id = 2, s_name = ''Base'', s_description = None,
         s_overrides = ''{equity_us: {target_pe: 18.5}}'', s_base_currency = ''USD'', s_is_shared_copy = True,
         s_shared_from_scenario_id = Some 10, s_shared_by_user_id = Some 1,
         s_shared_by_email = Some ''a@x''\<rparr>],
      react_scenario_shares = [\<lparr>rs_id = 100, rs_source_scenario_id = 10, rs_shared_by_user_id = 1,
         rs_recipient_user_id = 2, rs_recipient_email = ''Bob@X'', rs_created_at = 5\<rparr>]\<rparr>)"
    by (elim conjE)
  then have "react_share_scenario
              \<lparr>auth_uid = Some 1, gen_scenario_id = 11, gen_share_id = 100, now = 5\<rparr>
              (Some 10)
              (Some (replicate 0 (CHR '' '') @ ''bob@x'' @ replicate 0 (CHR '' '')))
              \<lparr>auth_users = [\<lparr>u_id = 1, u_email = Some ''a@x''\<rparr>,
        \<lparr>u_id = 2, u_email = Some ''Bob@X''\<rparr>],
      react_scenarios = [\<lparr>s_id = 10, s_user_id = 1, s_name = ''Base'', s_description = None,
         s_overrides = ''{equity_us: {target_pe: 18.5}}'', s_base_currency = ''USD'', s_is_shared_copy = False,
         s_shared_from_scenario_id = None, s_shared_by_user_id = None,
         s_shared_by_email = None\<rparr>],
      react_scenario_shares = []\<rparr>
            = (Inr \<lparr>r_shared_scenario_id = 11, r_shared_scenario_name = ''Base'',
        r_recipient_user_id = 2, r_recipient_email = ''Bob@X''\<rparr>,
              \<lparr>auth_users = [\<lparr>u_id = 1, u_email = Some ''a@x''\<rparr>,
        \<lparr>u_id = 2, u_email = Some ''Bob@X''\<rparr>],
      react_scenarios = [\<lparr>s_id = 10, s_user_id = 1, s_name = ''Base'', s_description = None,
         s_overrides = ''{equity_us: {target_pe: 18.5}}'', s_base_currency = ''USD'', s_is_shared_copy = False,
         s_shared_from_scenario_id = None, s_shared_by_user_id = None,
         s_shared_by_email = None\<rparr>,
        \<lparr>s_id = 11, s_user_id = 2, s_name = ''Base'', s_description = None,
         s_overrides = ''{equity_us: {target_pe: 18.5}}'', s_base_currency = ''USD'', s_is_shared_copy = True,
         s_shared_from_scenario_id = Some 10, s_shared_by_user_id = Some 1,
         s_shared_by_email = Some ''a@x''\<rparr>],
      react_scenario_shares = [\<lparr>rs_id = 100, rs_source_scenario_id = 10, rs_shared_by_user_id = 1,
         rs_recipient_user_id = 2, rs_recipient_email = ''Bob@X'', rs_created_at = 5\<rparr>]\<rparr>)"
    using form letters by blast
  then have "react_share_scenario
     \<lparr>auth_uid = Some 1, gen_scenario_id = 11, gen_share_id = 100, now = 5\<rparr>
     (Some 10) (Some ''bob@x'')
     \<lparr>auth_users = [\<lparr>u_id = 1, u_email = Some ''a@x''\<rparr>,
        \<lparr>u_id = 2, u_email = Some ''Bob@X''\<rparr>],
      react_scenarios = [\<lparr>s_id = 10, s_user_id = 1, s_name = ''Base'', s_description = None,
         s_overrides = ''{equity_us: {target_pe: 18.5}}'', s_base_currency = ''USD'', s_is_shared_copy = False,
         s_shared_from_scenario_id = None, s_shared_by_user_id = None,
         s_shared_by_email = None\<rparr>],
      react_scenario_shares = []\<rparr>
   = (Inr \<lparr>r_shared_scenario_id = 11, r_shared_scenario_name = ''Base'',
        r_recipient_user_id = 2, r_recipient_email = ''Bob@X''\<rparr>,
     \<lparr>auth_users = [\<lparr>u_id = 1, u_email = Some ''a@x''\<rparr>,
        \<lparr>u_id = 2, u_email = Some ''Bob@X''\<rparr>],
      react_scenarios = [\<lparr>s_id = 10, s_user_id = 1, s_name = ''Base'', s_description = None,
         s_overrides = ''{equity_us: {target_pe: 18.5}}'', s_base_currency = ''USD'', s_is_shared_copy = False,
         s_shared_from_scenario_id = None, s_shared_by_user_id = None,
         s_shared_by_email = None\<rparr>,
        \<lparr>s_id = 11, s_user_id = 2, s_name = ''Base'', s_description = None,
         s_overrides = ''{equity_us: {target_pe: 18.5}}'', s_base_currency = ''USD'', s_is_shared_copy = True,
         s_shared_from_scenario_id = Some 10, s_shared_by_user_id = Some 1,
         s_shared_by_email = Some ''a@x''\<rparr>],
      react_scenario_shares = [\<lparr>rs_id = 100, rs_source_scenario_id = 10, rs_shared_by_user_id = 1,
         rs_recipient_user_id = 2, rs_recipient_email = ''Bob@X'', rs_created_at = 5\<rparr>]\<rparr>)"
    by simp
  with form letters run show ?thesis
    by (intro conjI)
qed

end
